theory Spec2Isabelle
  imports Complex_Main
begin

section \<open>Numbers and vectors\<close>

text \<open>
  The interaction kernels of \<^verbatim>\<open>src/interactions.cpp\<close> compute with C++ \<^verbatim>\<open>double\<close>.
  For the kernels with one or two participants a \<^verbatim>\<open>double\<close> is modelled as a \<^typ>\<open>real\<close>:
  that model is exact, it has no rounding, no overflow and no non-finite values. Division
  in HOL is total (\<open>x / 0 = 0\<close>) where IEEE division by zero yields an infinity or a NaN,
  so a statement below that depends on the value of a quotient carries the side
  condition that its divisor is not zero (distinct positions, a non-zero height).
  The harmonic angle kernel divides by the sine of its angle, which is zero on ordinary
  input, and clamps a cosine that only rounding can push beyond 1; it is modelled apart,
  over doubles with rounding, infinities and NaN. The harmonic dihedral kernel is not
  modelled, and no statement below is about it: the sign of its quotient by the dot
  product of two normals depends on the sign of a zero, which neither model has.
  Particle indices are \<^verbatim>\<open>int\<close> in the source and never negative; they are \<^typ>\<open>nat\<close> here.
  \<^verbatim>\<open>vector::operator[]\<close> is unchecked: a read or write out of range is undefined
  behaviour in the source, so statements about a kernel assume its indices in range.
\<close>

text \<open>
  Modelled from the spec: \<^verbatim>\<open>vectors.hpp\<close> (the classes \<^verbatim>\<open>Vec3d\<close> and \<^verbatim>\<open>Vec2d\<close>) is not
  among the sources; the spec takes 3D vectors as given primitives. The operations are the
  usual componentwise ones, the default constructor gives the zero vector (the planar
  restraint's force is "zero when r below a small tolerance").
\<close>

datatype Vec3d = Vec3d (x3: real) (y3: real) (z3: real)

datatype Vec2d = Vec2d (x2: real) (y2: real)

instantiation Vec3d :: ab_group_add
begin

definition zero_Vec3d :: Vec3d where
  "zero_Vec3d = Vec3d 0 0 0"

definition plus_Vec3d :: "Vec3d \<Rightarrow> Vec3d \<Rightarrow> Vec3d" where
  "plus_Vec3d a b = Vec3d (x3 a + x3 b) (y3 a + y3 b) (z3 a + z3 b)"

definition minus_Vec3d :: "Vec3d \<Rightarrow> Vec3d \<Rightarrow> Vec3d" where
  "minus_Vec3d a b = Vec3d (x3 a - x3 b) (y3 a - y3 b) (z3 a - z3 b)"

definition uminus_Vec3d :: "Vec3d \<Rightarrow> Vec3d" where
  "uminus_Vec3d a = Vec3d (- x3 a) (- y3 a) (- z3 a)"

instance
  by standard
    (simp_all add: zero_Vec3d_def plus_Vec3d_def minus_Vec3d_def uminus_Vec3d_def)

end

instantiation Vec2d :: ab_group_add
begin

definition zero_Vec2d :: Vec2d where
  "zero_Vec2d = Vec2d 0 0"

definition plus_Vec2d :: "Vec2d \<Rightarrow> Vec2d \<Rightarrow> Vec2d" where
  "plus_Vec2d a b = Vec2d (x2 a + x2 b) (y2 a + y2 b)"

definition minus_Vec2d :: "Vec2d \<Rightarrow> Vec2d \<Rightarrow> Vec2d" where
  "minus_Vec2d a b = Vec2d (x2 a - x2 b) (y2 a - y2 b)"

definition uminus_Vec2d :: "Vec2d \<Rightarrow> Vec2d" where
  "uminus_Vec2d a = Vec2d (- x2 a) (- y2 a)"

instance
  by standard
    (simp_all add: zero_Vec2d_def plus_Vec2d_def minus_Vec2d_def uminus_Vec2d_def)

end

text \<open>\<^verbatim>\<open>double * Vec3d\<close> and \<^verbatim>\<open>double * Vec2d\<close>.\<close>

definition smul :: "real \<Rightarrow> Vec3d \<Rightarrow> Vec3d" where
  "smul a v = Vec3d (a * x3 v) (a * y3 v) (a * z3 v)"

definition smul2 :: "real \<Rightarrow> Vec2d \<Rightarrow> Vec2d" where
  "smul2 a v = Vec2d (a * x2 v) (a * y2 v)"

definition lensqr :: "Vec3d \<Rightarrow> real" where
  "lensqr v = x3 v * x3 v + y3 v * y3 v + z3 v * z3 v"

definition len :: "Vec3d \<Rightarrow> real" where
  "len v = sqrt (lensqr v)"

definition len2 :: "Vec2d \<Rightarrow> real" where
  "len2 v = sqrt (x2 v * x2 v + y2 v * y2 v)"

definition getXY :: "Vec3d \<Rightarrow> Vec2d" where
  "getXY v = Vec2d (x3 v) (y3 v)"

text \<open>The constructor \<^verbatim>\<open>Vec3d(const Vec2d&, double)\<close>.\<close>

definition Vec3d_of_xy :: "Vec2d \<Rightarrow> real \<Rightarrow> Vec3d" where
  "Vec3d_of_xy v c = Vec3d (x2 v) (y2 v) c"

section \<open>Accumulators\<close>

text \<open>
  A kernel receives the position array and the two accumulators by reference and adds
  its contribution in place; the model passes the pair of accumulators and returns the
  updated pair. \<^verbatim>\<open>a[i] += v\<close>, \<^verbatim>\<open>a[i] -= v\<close> and \<^verbatim>\<open>a[i].z += c\<close>:
\<close>

type_synonym accumulators = "Vec3d list \<times> real list"

definition add_at :: "'a::plus list \<Rightarrow> nat \<Rightarrow> 'a \<Rightarrow> 'a list" where
  "add_at xs i v = xs[i := xs ! i + v]"

definition sub_at :: "'a::minus list \<Rightarrow> nat \<Rightarrow> 'a \<Rightarrow> 'a list" where
  "sub_at xs i v = xs[i := xs ! i - v]"

definition add_z_at :: "Vec3d list \<Rightarrow> nat \<Rightarrow> real \<Rightarrow> Vec3d list" where
  "add_z_at xs i c = xs[i := Vec3d (x3 (xs ! i)) (y3 (xs ! i)) (z3 (xs ! i) + c)]"

section \<open>The interaction kernels\<close>

text \<open>
  Every kernel is a class with \<^verbatim>\<open>const\<close> members fixed at construction and one method
  \<^verbatim>\<open>eval(positions, forces, energies) const\<close>. The members are the leading arguments
  of each function below, in the order in which the text introduces them.
\<close>

text \<open>\<^verbatim>\<open>LJInteraction::eval\<close>, members \<^verbatim>\<open>atom_i1_, atom_i2_, es12_, es6_\<close>.\<close>

definition LJ_eval ::
  "nat \<Rightarrow> nat \<Rightarrow> real \<Rightarrow> real \<Rightarrow> Vec3d list \<Rightarrow> accumulators \<Rightarrow> accumulators" where
  "LJ_eval atom_i1 atom_i2 es12 es6 positions acc =
     (case acc of (forces, energies) \<Rightarrow>
      let r_vec = positions ! atom_i1 - positions ! atom_i2;
          r_sqr = lensqr r_vec;
          r6 = r_sqr * r_sqr * r_sqr;
          term_a = es12 / (r6 * r6);
          term_b = es6 / r6;
          e = term_a - term_b;
          f = smul ((12 * term_a - 6 * term_b) / r_sqr) r_vec;
          energies = add_at energies atom_i1 e;
          energies = add_at energies atom_i2 e;
          forces = add_at forces atom_i1 f;
          forces = sub_at forces atom_i2 f
      in (forces, energies))"

text \<open>\<^verbatim>\<open>MorseInteraction::eval\<close>, members \<^verbatim>\<open>atom_i1_, atom_i2_, de_, a_, re_\<close>.\<close>

definition Morse_eval ::
  "nat \<Rightarrow> nat \<Rightarrow> real \<Rightarrow> real \<Rightarrow> real \<Rightarrow> Vec3d list \<Rightarrow> accumulators \<Rightarrow> accumulators" where
  "Morse_eval atom_i1 atom_i2 de a re positions acc =
     (case acc of (forces, energies) \<Rightarrow>
      let r_vec = positions ! atom_i1 - positions ! atom_i2;
          r = len r_vec;
          d_exp = exp (- a * (r - re));
          e = de * (d_exp ^ 2 - 2 * d_exp + 1);
          f_abs = 2 * de * a * (d_exp ^ 2 - d_exp);
          f = smul (f_abs / r) r_vec;
          energies = add_at energies atom_i1 e;
          energies = add_at energies atom_i2 e;
          forces = add_at forces atom_i1 f;
          forces = sub_at forces atom_i2 f
      in (forces, energies))"

text \<open>\<^verbatim>\<open>CoulombInteraction::eval\<close>, members \<^verbatim>\<open>atom_i1_, atom_i2_, qq_\<close>.\<close>

definition Coulomb_eval ::
  "nat \<Rightarrow> nat \<Rightarrow> real \<Rightarrow> Vec3d list \<Rightarrow> accumulators \<Rightarrow> accumulators" where
  "Coulomb_eval atom_i1 atom_i2 qq positions acc =
     (case acc of (forces, energies) \<Rightarrow>
      let r_vec = positions ! atom_i1 - positions ! atom_i2;
          r = len r_vec;
          e = qq / r;
          f = smul (qq / (r * r * r)) r_vec;
          energies = add_at energies atom_i1 e;
          energies = add_at energies atom_i2 e;
          forces = add_at forces atom_i1 f;
          forces = sub_at forces atom_i2 f
      in (forces, energies))"

text \<open>
  \<^verbatim>\<open>ElectrostaticPotentialInteraction::eval\<close> and \<^verbatim>\<open>GridInteraction::eval\<close>, member
  \<^verbatim>\<open>force_grid_\<close>. \<^verbatim>\<open>force_grid.hpp\<close> is not among the sources, so the force grid is
  represented by its query \<^verbatim>\<open>interpolate\<close>, a parameter: a function from a position to
  the interpolated force and energy. Both kernels use the literal index 1.
\<close>

type_synonym ForceGrid = "Vec3d \<Rightarrow> Vec3d \<times> real"

definition ElectrostaticPotential_eval ::
  "ForceGrid \<Rightarrow> Vec3d list \<Rightarrow> accumulators \<Rightarrow> accumulators" where
  "ElectrostaticPotential_eval interpolate positions acc =
     (case acc of (forces, energies) \<Rightarrow>
      case interpolate (positions ! 1) of (tip_force, tip_energy) \<Rightarrow>
      let forces = add_at forces 1 tip_force;
          energies = add_at energies 1 tip_energy
      in (forces, energies))"

definition Grid_eval ::
  "ForceGrid \<Rightarrow> Vec3d list \<Rightarrow> accumulators \<Rightarrow> accumulators" where
  "Grid_eval interpolate positions acc =
     (case acc of (forces, energies) \<Rightarrow>
      case interpolate (positions ! 1) of (tip_force, tip_energy) \<Rightarrow>
      let forces = add_at forces 1 tip_force;
          energies = add_at energies 1 tip_energy
      in (forces, energies))"

text \<open>
  \<^verbatim>\<open>TipHarmonicInteraction::eval\<close>, members \<^verbatim>\<open>atom_i1_, atom_i2_, k_, r0_\<close>. The
  constant \<^verbatim>\<open>TOLERANCE\<close> of \<^verbatim>\<open>globals.hpp\<close> is not among the sources and is the first
  parameter. \<^verbatim>\<open>Vec3d f;\<close> is default-constructed, the zero vector, and assigned only
  under the guard.
\<close>

definition TipHarmonic_eval ::
  "real \<Rightarrow> nat \<Rightarrow> nat \<Rightarrow> real \<Rightarrow> real \<Rightarrow> Vec3d list \<Rightarrow> accumulators \<Rightarrow> accumulators" where
  "TipHarmonic_eval TOLERANCE atom_i1 atom_i2 k r0 positions acc =
     (case acc of (forces, energies) \<Rightarrow>
      let r_vec = positions ! atom_i1 - positions ! atom_i2;
          r_2d = getXY r_vec;
          r = len2 r_2d;
          dr = r - r0;
          e = k * dr * dr;
          f = (if r > TOLERANCE then Vec3d_of_xy (smul2 (- 2 * k * dr / r) r_2d) 0 else 0);
          energies = add_at energies atom_i1 e;
          energies = add_at energies atom_i2 e;
          forces = add_at forces atom_i1 f;
          forces = sub_at forces atom_i2 f
      in (forces, energies))"

text \<open>\<^verbatim>\<open>XYHarmonicInteraction::eval\<close>, members \<^verbatim>\<open>atom_i_, k_, p0_\<close>.\<close>

definition XYHarmonic_eval ::
  "real \<Rightarrow> nat \<Rightarrow> real \<Rightarrow> Vec2d \<Rightarrow> Vec3d list \<Rightarrow> accumulators \<Rightarrow> accumulators" where
  "XYHarmonic_eval TOLERANCE atom_i k p0 positions acc =
     (case acc of (forces, energies) \<Rightarrow>
      let r_2d = getXY (positions ! atom_i) - p0;
          r = len2 r_2d;
          e = k * r * r;
          f = (if r > TOLERANCE then Vec3d_of_xy (smul2 (- 2 * k) r_2d) 0 else 0);
          energies = add_at energies atom_i e;
          forces = add_at forces atom_i f
      in (forces, energies))"

text \<open>
  \<^verbatim>\<open>SubstrateInteraction::eval\<close>, members
  \<^verbatim>\<open>atom_i_, z0_, sig_, multiplier_, ulj_, ushift_, rc_\<close>.
\<close>

definition Substrate_eval ::
  "nat \<Rightarrow> real \<Rightarrow> real \<Rightarrow> real \<Rightarrow> real \<Rightarrow> real \<Rightarrow> real \<Rightarrow>
     Vec3d list \<Rightarrow> accumulators \<Rightarrow> accumulators" where
  "Substrate_eval atom_i z0 sig multiplier ulj ushift rc positions acc =
     (case acc of (forces, energies) \<Rightarrow>
      let dz = z3 (positions ! atom_i) - z0;
          sig_z = sig / dz;
          sig_z2 = sig_z * sig_z;
          sig_z4 = sig_z2 * sig_z2;
          sig_z10 = sig_z4 * sig_z4 * sig_z2;
          (eterm, fterm) =
            (if dz \<le> rc
             then (0 + (multiplier * (2 / 5 * sig_z10 - sig_z4) + ulj * dz * dz - ushift),
                   0 + (4 * multiplier / dz * (sig_z10 - sig_z4) + 2 * ulj * dz))
             else (0, 0));
          forces = add_z_at forces atom_i fterm;
          energies = add_at energies atom_i eterm
      in (forces, energies))"

text \<open>\<^verbatim>\<open>HarmonicInteraction::eval\<close>, members \<^verbatim>\<open>atom_i1_, atom_i2_, k_, r0_\<close>.\<close>

definition Harmonic_eval ::
  "nat \<Rightarrow> nat \<Rightarrow> real \<Rightarrow> real \<Rightarrow> Vec3d list \<Rightarrow> accumulators \<Rightarrow> accumulators" where
  "Harmonic_eval atom_i1 atom_i2 k r0 positions acc =
     (case acc of (forces, energies) \<Rightarrow>
      let r_vec = positions ! atom_i1 - positions ! atom_i2;
          r = len r_vec;
          dr = r - r0;
          e = k * dr ^ 2;
          f = smul (- 2 * k * dr / r) r_vec;
          energies = add_at energies atom_i1 e;
          energies = add_at energies atom_i2 e;
          forces = add_at forces atom_i1 f;
          forces = sub_at forces atom_i2 f
      in (forces, energies))"

section \<open>The interactions with one or two participants\<close>

text \<open>
  The subclasses of \<^verbatim>\<open>Interaction\<close> modelled above as one datatype, each constructor
  holding the members of its class, and the virtual method \<^verbatim>\<open>eval\<close> as one function
  that dispatches on the constructor. The first argument is the constant
  \<^verbatim>\<open>TOLERANCE\<close>. (The harmonic angle kernel follows in its own section.)
\<close>

datatype Interaction =
    LJInteraction nat nat real real
  | MorseInteraction nat nat real real real
  | CoulombInteraction nat nat real
  | ElectrostaticPotentialInteraction ForceGrid
  | GridInteraction ForceGrid
  | TipHarmonicInteraction nat nat real real
  | XYHarmonicInteraction nat real Vec2d
  | SubstrateInteraction nat real real real real real real
  | HarmonicInteraction nat nat real real

fun eval :: "real \<Rightarrow> Interaction \<Rightarrow> Vec3d list \<Rightarrow> accumulators \<Rightarrow> accumulators" where
  "eval TOLERANCE (LJInteraction i1 i2 es12 es6) = LJ_eval i1 i2 es12 es6"
| "eval TOLERANCE (MorseInteraction i1 i2 de a re) = Morse_eval i1 i2 de a re"
| "eval TOLERANCE (CoulombInteraction i1 i2 qq) = Coulomb_eval i1 i2 qq"
| "eval TOLERANCE (ElectrostaticPotentialInteraction g) = ElectrostaticPotential_eval g"
| "eval TOLERANCE (GridInteraction g) = Grid_eval g"
| "eval TOLERANCE (TipHarmonicInteraction i1 i2 k r0) = TipHarmonic_eval TOLERANCE i1 i2 k r0"
| "eval TOLERANCE (XYHarmonicInteraction i k p0) = XYHarmonic_eval TOLERANCE i k p0"
| "eval TOLERANCE (SubstrateInteraction i z0 sig mult ulj ushift rc) =
     Substrate_eval i z0 sig mult ulj ushift rc"
| "eval TOLERANCE (HarmonicInteraction i1 i2 k r0) = Harmonic_eval i1 i2 k r0"

text \<open>
  The two-body kernels and their two participants: Lennard-Jones, Morse, Coulomb,
  harmonic bond and the planar tip restraint.
\<close>

fun two_body :: "Interaction \<Rightarrow> (nat \<times> nat) option" where
  "two_body (LJInteraction i1 i2 es12 es6) = Some (i1, i2)"
| "two_body (MorseInteraction i1 i2 de a re) = Some (i1, i2)"
| "two_body (CoulombInteraction i1 i2 qq) = Some (i1, i2)"
| "two_body (TipHarmonicInteraction i1 i2 k r0) = Some (i1, i2)"
| "two_body (HarmonicInteraction i1 i2 k r0) = Some (i1, i2)"
| "two_body _ = None"

text \<open>The pair energy \<^verbatim>\<open>e\<close> that a two-body kernel computes from the positions.\<close>

fun pair_energy :: "Interaction \<Rightarrow> Vec3d list \<Rightarrow> real" where
  "pair_energy (LJInteraction i1 i2 es12 es6) positions =
     (let r_sqr = lensqr (positions ! i1 - positions ! i2);
          r6 = r_sqr * r_sqr * r_sqr
      in es12 / (r6 * r6) - es6 / r6)"
| "pair_energy (MorseInteraction i1 i2 de a re) positions =
     (let r = len (positions ! i1 - positions ! i2);
          d_exp = exp (- a * (r - re))
      in de * (d_exp ^ 2 - 2 * d_exp + 1))"
| "pair_energy (CoulombInteraction i1 i2 qq) positions =
     qq / len (positions ! i1 - positions ! i2)"
| "pair_energy (TipHarmonicInteraction i1 i2 k r0) positions =
     (let dr = len2 (getXY (positions ! i1 - positions ! i2)) - r0 in k * dr * dr)"
| "pair_energy (HarmonicInteraction i1 i2 k r0) positions =
     (let dr = len (positions ! i1 - positions ! i2) - r0 in k * dr ^ 2)"
| "pair_energy _ positions = 0"



section \<open>The harmonic angle kernel, with rounding and non-finite values\<close>

text \<open>
  A \<^verbatim>\<open>double\<close> with the special values of IEEE arithmetic: a finite number, an infinity
  of either sign, or NaN. The rounding of the arithmetic is a parameter \<open>rnd\<close>, which
  takes the exact result of an operation on finite operands to the double that the
  operation returns (an infinity on overflow); every operation rounds once. The general
  statements below hold for every rounding that leaves zero as it is; the example is
  computed with the rounding of binary64, \<open>binary64\<close> below. The two zeros of IEEE
  arithmetic are one value here: the sign of a zero shows only in the sign of a quotient
  by it, and the divisors of this kernel are lengths, a product of lengths and the sine
  of an angle in \<open>[0, \<pi>]\<close>, which are never the negative zero.
\<close>

datatype double = Fin real | PInf | NInf | NaN

type_synonym rounding = "real \<Rightarrow> double"

fun nonfinite :: "double \<Rightarrow> bool" where
  "nonfinite (Fin a) = False"
| "nonfinite PInf = True"
| "nonfinite NInf = True"
| "nonfinite NaN = True"

text \<open>The infinity with the sign of \<open>s\<close>, NaN where \<open>s\<close> is zero.\<close>

definition inf_of_sign :: "real \<Rightarrow> double" where
  "inf_of_sign s = (if s > 0 then PInf else if s < 0 then NInf else NaN)"

fun dneg :: "double \<Rightarrow> double" where
  "dneg (Fin a) = Fin (- a)"
| "dneg PInf = NInf"
| "dneg NInf = PInf"
| "dneg NaN = NaN"

text \<open>Sum: NaN propagates, opposite infinities give NaN, an infinity absorbs.\<close>

fun dadd :: "rounding \<Rightarrow> double \<Rightarrow> double \<Rightarrow> double" where
  "dadd rnd (Fin a) (Fin b) = rnd (a + b)"
| "dadd rnd NaN y = NaN"
| "dadd rnd x NaN = NaN"
| "dadd rnd PInf NInf = NaN"
| "dadd rnd NInf PInf = NaN"
| "dadd rnd PInf y = PInf"
| "dadd rnd x PInf = PInf"
| "dadd rnd NInf y = NInf"
| "dadd rnd x NInf = NInf"

definition dsub :: "rounding \<Rightarrow> double \<Rightarrow> double \<Rightarrow> double" where
  "dsub rnd x y = dadd rnd x (dneg y)"

text \<open>Product: an infinity times zero is NaN, otherwise the infinity of the signs.\<close>

fun dmul :: "rounding \<Rightarrow> double \<Rightarrow> double \<Rightarrow> double" where
  "dmul rnd (Fin a) (Fin b) = rnd (a * b)"
| "dmul rnd NaN y = NaN"
| "dmul rnd x NaN = NaN"
| "dmul rnd (Fin a) PInf = inf_of_sign a"
| "dmul rnd (Fin a) NInf = inf_of_sign (- a)"
| "dmul rnd PInf (Fin b) = inf_of_sign b"
| "dmul rnd NInf (Fin b) = inf_of_sign (- b)"
| "dmul rnd PInf PInf = PInf"
| "dmul rnd PInf NInf = NInf"
| "dmul rnd NInf PInf = NInf"
| "dmul rnd NInf NInf = PInf"

text \<open>
  Quotient: a non-zero number by zero is the infinity of its sign, zero by zero and an
  infinity by an infinity are NaN, a finite number by an infinity is zero.
\<close>

fun ddiv :: "rounding \<Rightarrow> double \<Rightarrow> double \<Rightarrow> double" where
  "ddiv rnd (Fin a) (Fin b) = (if b = 0 then inf_of_sign a else rnd (a / b))"
| "ddiv rnd NaN y = NaN"
| "ddiv rnd x NaN = NaN"
| "ddiv rnd (Fin a) PInf = Fin 0"
| "ddiv rnd (Fin a) NInf = Fin 0"
| "ddiv rnd PInf (Fin b) = (if b < 0 then NInf else PInf)"
| "ddiv rnd NInf (Fin b) = (if b < 0 then PInf else NInf)"
| "ddiv rnd PInf PInf = NaN"
| "ddiv rnd PInf NInf = NaN"
| "ddiv rnd NInf PInf = NaN"
| "ddiv rnd NInf NInf = NaN"

fun dsqrt :: "rounding \<Rightarrow> double \<Rightarrow> double" where
  "dsqrt rnd (Fin a) = (if a < 0 then NaN else rnd (sqrt a))"
| "dsqrt rnd PInf = PInf"
| "dsqrt rnd NInf = NaN"
| "dsqrt rnd NaN = NaN"

text \<open>
  The C library's \<^verbatim>\<open>acos\<close>: its domain is \<open>[-1, 1]\<close>; on an argument outside of it (an
  infinity included) it reports a domain error and returns NaN; a NaN argument gives NaN
  without an error.
\<close>

fun acos_domain_error :: "double \<Rightarrow> bool" where
  "acos_domain_error (Fin a) = (a < - 1 \<or> 1 < a)"
| "acos_domain_error PInf = True"
| "acos_domain_error NInf = True"
| "acos_domain_error NaN = False"

fun dacos :: "rounding \<Rightarrow> double \<Rightarrow> double" where
  "dacos rnd (Fin a) = (if a < - 1 \<or> 1 < a then NaN else rnd (arccos a))"
| "dacos rnd PInf = NaN"
| "dacos rnd NInf = NaN"
| "dacos rnd NaN = NaN"

fun dsin :: "rounding \<Rightarrow> double \<Rightarrow> double" where
  "dsin rnd (Fin a) = rnd (sin a)"
| "dsin rnd PInf = NaN"
| "dsin rnd NInf = NaN"
| "dsin rnd NaN = NaN"

text \<open>The comparisons \<^verbatim>\<open>x > y\<close> and \<^verbatim>\<open>x < y\<close>: false when either side is NaN.\<close>

fun dgt :: "double \<Rightarrow> double \<Rightarrow> bool" where
  "dgt (Fin a) (Fin b) = (a > b)"
| "dgt NaN y = False"
| "dgt x NaN = False"
| "dgt x PInf = False"
| "dgt PInf y = True"
| "dgt NInf y = False"
| "dgt (Fin a) NInf = True"

definition dlt :: "double \<Rightarrow> double \<Rightarrow> bool" where
  "dlt x y = dgt y x"

text \<open>
  Modelled from the spec: the vector operations of \<^verbatim>\<open>vectors.hpp\<close>, which is not among
  the sources, componentwise over these doubles; the length is the square root of the
  dot product of a vector with itself.
\<close>

datatype dVec3d = dVec3d (dvx: double) (dvy: double) (dvz: double)

definition nonfinite3 :: "dVec3d \<Rightarrow> bool" where
  "nonfinite3 v = (nonfinite (dvx v) \<and> nonfinite (dvy v) \<and> nonfinite (dvz v))"

definition dvadd :: "rounding \<Rightarrow> dVec3d \<Rightarrow> dVec3d \<Rightarrow> dVec3d" where
  "dvadd rnd a b = dVec3d (dadd rnd (dvx a) (dvx b)) (dadd rnd (dvy a) (dvy b)) (dadd rnd (dvz a) (dvz b))"

definition dvsub :: "rounding \<Rightarrow> dVec3d \<Rightarrow> dVec3d \<Rightarrow> dVec3d" where
  "dvsub rnd a b = dVec3d (dsub rnd (dvx a) (dvx b)) (dsub rnd (dvy a) (dvy b)) (dsub rnd (dvz a) (dvz b))"

definition dsmul :: "rounding \<Rightarrow> double \<Rightarrow> dVec3d \<Rightarrow> dVec3d" where
  "dsmul rnd c v = dVec3d (dmul rnd c (dvx v)) (dmul rnd c (dvy v)) (dmul rnd c (dvz v))"

definition dvmul :: "rounding \<Rightarrow> dVec3d \<Rightarrow> double \<Rightarrow> dVec3d" where
  "dvmul rnd v c = dVec3d (dmul rnd (dvx v) c) (dmul rnd (dvy v) c) (dmul rnd (dvz v) c)"

definition dvdiv :: "rounding \<Rightarrow> dVec3d \<Rightarrow> double \<Rightarrow> dVec3d" where
  "dvdiv rnd v c = dVec3d (ddiv rnd (dvx v) c) (ddiv rnd (dvy v) c) (ddiv rnd (dvz v) c)"

definition ddot :: "rounding \<Rightarrow> dVec3d \<Rightarrow> dVec3d \<Rightarrow> double" where
  "ddot rnd a b =
     dadd rnd (dadd rnd (dmul rnd (dvx a) (dvx b)) (dmul rnd (dvy a) (dvy b))) (dmul rnd (dvz a) (dvz b))"

definition dlen :: "rounding \<Rightarrow> dVec3d \<Rightarrow> double" where
  "dlen rnd v = dsqrt rnd (ddot rnd v v)"

type_synonym daccumulators = "dVec3d list \<times> double list"

text \<open>Lines 279 to 283: the clamp of the cosine, in place.\<close>

definition clamp_cos :: "double \<Rightarrow> double" where
  "clamp_cos cos_t =
     (if dgt cos_t (Fin 1) then Fin 1 else if dlt cos_t (Fin (- 1)) then Fin (- 1) else cos_t)"

text \<open>
  \<^verbatim>\<open>HarmonicAngleInteraction::eval\<close>, members
  \<^verbatim>\<open>atom_i1_, atom_i2_, shared_i_, k_, theta0_\<close>. The integer \<^verbatim>\<open>-2\<close> converts exactly,
  \<^verbatim>\<open>pow(d_theta, 2)\<close> is the product of \<^verbatim>\<open>d_theta\<close> with itself.
\<close>

definition HarmonicAngle_eval ::
  "rounding \<Rightarrow> nat \<Rightarrow> nat \<Rightarrow> nat \<Rightarrow> double \<Rightarrow> double \<Rightarrow> dVec3d list \<Rightarrow>
     daccumulators \<Rightarrow> daccumulators" where
  "HarmonicAngle_eval rnd atom_i1 atom_i2 shared_i k theta0 positions acc =
     (case acc of (forces, energies) \<Rightarrow>
      let r1_vec = dvsub rnd (positions ! atom_i1) (positions ! shared_i);
          r2_vec = dvsub rnd (positions ! atom_i2) (positions ! shared_i);
          r1 = dlen rnd r1_vec;
          r2 = dlen rnd r2_vec;
          cos_t = ddiv rnd (ddot rnd r1_vec r2_vec) (dmul rnd r1 r2);
          cos_t = clamp_cos cos_t;
          theta = dacos rnd cos_t;
          sin_t = dsin rnd theta;
          d_theta = dsub rnd theta theta0;
          f_multiplier = ddiv rnd (dmul rnd (dmul rnd (Fin (- 2)) k) d_theta) sin_t;
          f1 = dsmul rnd (ddiv rnd (dneg f_multiplier) r1)
                 (dvsub rnd (dvdiv rnd r2_vec r2) (dvdiv rnd (dvmul rnd r1_vec cos_t) r1));
          f2 = dsmul rnd (ddiv rnd (dneg f_multiplier) r2)
                 (dvsub rnd (dvdiv rnd r1_vec r1) (dvdiv rnd (dvmul rnd r2_vec cos_t) r2));
          e = dmul rnd k (dmul rnd d_theta d_theta);
          forces = forces[atom_i1 := dvadd rnd (forces ! atom_i1) f1];
          forces = forces[atom_i2 := dvadd rnd (forces ! atom_i2) f2];
          forces = forces[shared_i := dvsub rnd (forces ! shared_i) (dvadd rnd f1 f2)];
          energies = energies[atom_i1 := dadd rnd (energies ! atom_i1) e];
          energies = energies[atom_i2 := dadd rnd (energies ! atom_i2) e];
          energies = energies[shared_i := dadd rnd (energies ! shared_i) e]
      in (forces, energies))"

text \<open>The cosine ratio of line 278, as the kernel computes it from the positions.\<close>

definition HarmonicAngle_cos_t :: "rounding \<Rightarrow> nat \<Rightarrow> nat \<Rightarrow> nat \<Rightarrow> dVec3d list \<Rightarrow> double" where
  "HarmonicAngle_cos_t rnd atom_i1 atom_i2 shared_i positions =
     (let r1_vec = dvsub rnd (positions ! atom_i1) (positions ! shared_i);
          r2_vec = dvsub rnd (positions ! atom_i2) (positions ! shared_i);
          r1 = dlen rnd r1_vec;
          r2 = dlen rnd r2_vec
      in ddiv rnd (ddot rnd r1_vec r2_vec) (dmul rnd r1 r2))"

text \<open>
  The rounding of binary64, to nearest with ties to even: \<open>rne\<close> is the integer nearest
  to a real, the even one of two that are equally near. A real \<open>x\<close> with
  \<open>2\<^sup>e \<le> \<bar>x\<bar> < 2\<^sup>e\<^sup>+\<^sup>1\<close> lies among the doubles of spacing \<open>2\<^sup>e\<^sup>-\<^sup>5\<^sup>2\<close> (53 significant bits), below
  \<open>2\<^sup>-\<^sup>1\<^sup>0\<^sup>2\<^sup>2\<close> the spacing stays \<open>2\<^sup>-\<^sup>1\<^sup>0\<^sup>7\<^sup>4\<close>, and a result that rounds to \<open>2\<^sup>1\<^sup>0\<^sup>2\<^sup>4\<close> or beyond is
  the infinity of its sign. The C library does not promise a correctly rounded \<^verbatim>\<open>acos\<close>
  and \<^verbatim>\<open>sin\<close>; in the example they are taken at 1 and at 0, where their results 0 are
  exact.
\<close>

definition rne :: "real \<Rightarrow> int" where
  "rne y = (let f = \<lfloor>y\<rfloor> in
     if y - of_int f < 1 / 2 then f
     else if 1 / 2 < y - of_int f then f + 1
     else if even f then f else f + 1)"

definition binary64 :: rounding where
  "binary64 x = (if x = 0 then Fin 0 else
     let e = max \<lfloor>log 2 \<bar>x\<bar>\<rfloor> (- 1022);
         u = 2 powr (of_int e - 52);
         y = of_int (rne (x / u)) * u
     in if \<bar>y\<bar> < 2 ^ 1024 then Fin y else inf_of_sign x)"

text \<open>
  The example: \<open>P111\<close> holds two particles at \<open>(1, 1, 1)\<close> and the shared one at the
  origin; \<open>Z3\<close> are zeroed accumulators for three particles.
\<close>

definition P111 :: "dVec3d list" where
  "P111 = [dVec3d (Fin 1) (Fin 1) (Fin 1), dVec3d (Fin 1) (Fin 1) (Fin 1),
           dVec3d (Fin 0) (Fin 0) (Fin 0)]"

definition Z3 :: daccumulators where
  "Z3 = ([dVec3d (Fin 0) (Fin 0) (Fin 0), dVec3d (Fin 0) (Fin 0) (Fin 0),
          dVec3d (Fin 0) (Fin 0) (Fin 0)], [Fin 0, Fin 0, Fin 0])"

text \<open>A double that is zero or NaN: what a product with an exact zero can be.\<close>

definition zero_or_NaN :: "double \<Rightarrow> bool" where
  "zero_or_NaN x = (x = Fin 0 \<or> x = NaN)"

section \<open>The spectral builder: force components from the energy spectrum\<close>

text \<open>
  \<^verbatim>\<open>data_grid.hpp\<close> is not among the sources. A \<^verbatim>\<open>DataGrid<T>\<close> is modelled by what the
  constructor of \<^verbatim>\<open>ElectrostaticPotentialInteraction\<close> uses of it: the lattice size, the
  spacing, the origin, and the values, addressed by node \<^verbatim>\<open>at(ix, iy, iz)\<close>. The values
  are nested lists indexed by \<open>ix\<close>, then \<open>iy\<close>, then \<open>iz\<close>; the order in which the class
  stores them is not modelled. \<^verbatim>\<open>at(ind)\<close> with a flat index addresses the same nodes in
  storage order, so the loops \<^verbatim>\<open>for (ind = 0; ind < n_grid.x*n_grid.y*n_grid.z; ind++)\<close>
  that copy between two grids of one shape are loops over all nodes.
\<close>

record 'a DataGrid =
  n_grid :: "nat \<times> nat \<times> nat"
  spacing :: Vec3d
  origin :: Vec3d
  nodes :: "'a list list list"

definition at3 :: "'a DataGrid \<Rightarrow> nat \<Rightarrow> nat \<Rightarrow> nat \<Rightarrow> 'a" where
  "at3 g ix iy iz = nodes g ! ix ! iy ! iz"

definition set3 :: "'a DataGrid \<Rightarrow> nat \<Rightarrow> nat \<Rightarrow> nat \<Rightarrow> 'a \<Rightarrow> 'a DataGrid" where
  "set3 g ix iy iz v =
     g\<lparr>nodes := (nodes g)[ix := (nodes g ! ix)[iy := (nodes g ! ix ! iy)[iz := v]]]\<rparr>"

text \<open>
  The loop nest \<^verbatim>\<open>for ix < n_grid.x, for iy < n_grid.y, for iz < n_grid.z\<close> over a
  state \<open>'s\<close>.
\<close>

definition for3 :: "nat \<times> nat \<times> nat \<Rightarrow> (nat \<Rightarrow> nat \<Rightarrow> nat \<Rightarrow> 's \<Rightarrow> 's) \<Rightarrow> 's \<Rightarrow> 's" where
  "for3 n body =
     (case n of (nx, ny, nz) \<Rightarrow>
        fold (\<lambda>ix. fold (\<lambda>iy. fold (\<lambda>iz. body ix iy iz) [0..<nz]) [0..<ny]) [0..<nx])"

text \<open>
  Lines 136 to 154, one axis: the wavenumber of every index of an axis of \<open>n\<close> points,
  \<open>dk\<close> being that component of \<^verbatim>\<open>energy_kspace.getSpacing()\<close>. \<^verbatim>\<open>int(n_grid.x/2)\<close> is an
  integer division. (The source reserves the vector and writes through \<^verbatim>\<open>operator[]\<close>;
  the model gives it its \<open>n\<close> elements.)
\<close>

definition k_points :: "nat \<Rightarrow> real \<Rightarrow> real list" where
  "k_points n dk =
     fold (\<lambda>ix k_points.
             let k_points = k_points[ix := real ix * dk]
             in if ix \<ge> n div 2 then k_points[ix := k_points ! ix - real n * dk] else k_points)
       [0..<n] (replicate n 0)"

text \<open>
  Modelled from the spec: \<^verbatim>\<open>fft.hpp\<close> is not among the sources, and with it the spacing
  that \<^verbatim>\<open>fft_data_grid\<close> gives the transformed grid. The spec has index \<open>i\<close> of an axis
  of length \<open>N\<close> and spacing \<open>s\<close> at the frequency \<open>i / (N s)\<close>: the spacing in reciprocal
  space is \<open>1 / (N s)\<close>.
\<close>

definition kspace_spacing :: "nat \<Rightarrow> real \<Rightarrow> real" where
  "kspace_spacing n s = 1 / (real n * s)"

text \<open>
  The wavenumber of the spec (section 4.2, step 6) for an axis of \<open>n\<close> points and
  spacing \<open>s\<close>: index \<open>i\<close> is at \<open>i / (n s)\<close> for \<open>i < n / 2\<close> and at \<open>(i - n) / (n s)\<close>
  otherwise, \<open>n / 2\<close> being the exact half.
\<close>

definition spec_wavenumber :: "nat \<Rightarrow> real \<Rightarrow> nat \<Rightarrow> real" where
  "spec_wavenumber n s i =
     (if real i < real n / 2 then real i / (real n * s) else (real i - real n) / (real n * s))"

text \<open>The assignments \<^verbatim>\<open>force.at(ind).x = c\<close>, \<^verbatim>\<open>.y\<close> and \<^verbatim>\<open>.z\<close>.\<close>

definition set_x :: "Vec3d \<Rightarrow> real \<Rightarrow> Vec3d" where
  "set_x v c = Vec3d c (y3 v) (z3 v)"

definition set_y :: "Vec3d \<Rightarrow> real \<Rightarrow> Vec3d" where
  "set_y v c = Vec3d (x3 v) c (z3 v)"

definition set_z :: "Vec3d \<Rightarrow> real \<Rightarrow> Vec3d" where
  "set_z v c = Vec3d (x3 v) (y3 v) c"

text \<open>
  Lines 135 to 190 of the constructor: from the energy spectrum \<^verbatim>\<open>energy_kspace\<close> to the
  three components of the force lattice. \<^verbatim>\<open>ffti_data_grid(in, out)\<close>, the inverse
  transform of \<^verbatim>\<open>fft.hpp\<close>, is a parameter: a function of the grid it reads and of the
  grid it writes to. \<^verbatim>\<open>temp_kspace\<close> is the scratch grid that the source reuses,
  \<^verbatim>\<open>temp_rspace\<close> the real scratch grid, \<^verbatim>\<open>force\<close> the lattice of zero vectors reserved
  at the start, \<open>n\<close> is \<^verbatim>\<open>n_grid\<close>.
\<close>

definition force_from_energy_kspace ::
  "(complex DataGrid \<Rightarrow> real DataGrid \<Rightarrow> real DataGrid) \<Rightarrow> nat \<times> nat \<times> nat \<Rightarrow>
     complex DataGrid \<Rightarrow> complex DataGrid \<Rightarrow> real DataGrid \<Rightarrow> Vec3d DataGrid \<Rightarrow> Vec3d DataGrid" where
  "force_from_energy_kspace ffti_data_grid n energy_kspace temp_kspace temp_rspace force =
     (case n of (nx, ny, nz) \<Rightarrow>
      let kx_points = k_points nx (x3 (spacing energy_kspace));
          ky_points = k_points ny (y3 (spacing energy_kspace));
          kz_points = k_points nz (z3 (spacing energy_kspace));
          temp_kspace = for3 n (\<lambda>ix iy iz temp_kspace. set3 temp_kspace ix iy iz
              (- 2 * complex_of_real pi * \<i> * complex_of_real (kx_points ! ix)
                 * at3 energy_kspace ix iy iz)) temp_kspace;
          temp_rspace = ffti_data_grid temp_kspace temp_rspace;
          force = for3 n (\<lambda>ix iy iz force. set3 force ix iy iz
              (set_x (at3 force ix iy iz) (at3 temp_rspace ix iy iz))) force;
          temp_kspace = for3 n (\<lambda>ix iy iz temp_kspace. set3 temp_kspace ix iy iz
              (- 2 * complex_of_real pi * \<i> * complex_of_real (ky_points ! iy)
                 * at3 energy_kspace ix iy iz)) temp_kspace;
          temp_rspace = ffti_data_grid temp_kspace temp_rspace;
          force = for3 n (\<lambda>ix iy iz force. set3 force ix iy iz
              (set_y (at3 force ix iy iz) (at3 temp_rspace ix iy iz))) force;
          temp_kspace = for3 n (\<lambda>ix iy iz temp_kspace. set3 temp_kspace ix iy iz
              (- 2 * complex_of_real pi * \<i> * complex_of_real (kz_points ! iz)
                 * at3 energy_kspace ix iy iz)) temp_kspace;
          temp_rspace = ffti_data_grid temp_kspace temp_rspace;
          force = for3 n (\<lambda>ix iy iz force. set3 force ix iy iz
              (set_z (at3 force ix iy iz) (at3 temp_rspace ix iy iz))) force
      in force)"

text \<open>
  The lattice with the value \<open>v ix iy iz\<close> at every node, the lattices of a given shape,
  and the spectrum \<open>c \<cdot> k \<cdot> energy_kspace\<close>, node by node, for a complex factor \<open>c\<close> and a
  wavenumber \<open>k\<close> per node.
\<close>

definition grid_of :: "nat \<times> nat \<times> nat \<Rightarrow> (nat \<Rightarrow> nat \<Rightarrow> nat \<Rightarrow> 'a) \<Rightarrow> 'a list list list" where
  "grid_of n v =
     (case n of (nx, ny, nz) \<Rightarrow>
        map (\<lambda>ix. map (\<lambda>iy. map (\<lambda>iz. v ix iy iz) [0..<nz]) [0..<ny]) [0..<nx])"

definition shaped :: "nat \<times> nat \<times> nat \<Rightarrow> 'a list list list \<Rightarrow> bool" where
  "shaped n g =
     (case n of (nx, ny, nz) \<Rightarrow>
        length g = nx
        \<and> list_all (\<lambda>row. length row = ny \<and> list_all (\<lambda>line. length line = nz) row) g)"

definition spectrum_times ::
  "complex \<Rightarrow> nat \<times> nat \<times> nat \<Rightarrow> (nat \<Rightarrow> nat \<Rightarrow> nat \<Rightarrow> real) \<Rightarrow> complex DataGrid \<Rightarrow>
     complex list list list" where
  "spectrum_times c n k energy_kspace =
     grid_of n (\<lambda>ix iy iz. c * complex_of_real (k ix iy iz) * at3 energy_kspace ix iy iz)"

text \<open>
  Modelled from the spec: \<^verbatim>\<open>fft.hpp\<close> is not among the sources. The inverse transform
  to real space is taken to be the inverse three-dimensional discrete Fourier transform,
  of which the real grid keeps the real part. It serves as the instance of the parameter
  \<open>ffti_data_grid\<close> in the concrete examples below, which depend on its sign only.
\<close>

definition ffti_spec :: "complex DataGrid \<Rightarrow> real DataGrid \<Rightarrow> real DataGrid" where
  "ffti_spec data_in data_out =
     (case n_grid data_in of (nx, ny, nz) \<Rightarrow>
        data_out\<lparr>n_grid := (nx, ny, nz),
          nodes := grid_of (nx, ny, nz) (\<lambda>x y z.
            Re (\<Sum>ix<nx. \<Sum>iy<ny. \<Sum>iz<nz.
                  at3 data_in ix iy iz
                  * cis (2 * pi * (real ix * real x / real nx + real iy * real y / real ny
                                   + real iz * real z / real nz)))
              / real (nx * ny * nz))\<rparr>)"

text \<open>
  A lattice of \<open>4 \<times> 1 \<times> 1\<close> nodes with spacing 1 for the examples. \<open>E4\<close> is the spectrum
  of the energy \<open>[0, 1, 0, -1]\<close> along \<open>x\<close> (one period of a sine, which rises at node 0),
  with the reciprocal spacing \<open>1 / (4 \<cdot> 1)\<close>; \<open>T4\<close> and \<open>R0\<close> are the scratch grids and
  \<open>F4\<close> is the zero force lattice.
\<close>

definition E4 :: "complex DataGrid" where
  "E4 = \<lparr>n_grid = (4, 1, 1), spacing = Vec3d (1 / 4) 1 1, origin = Vec3d 0 0 0,
          nodes = [[[0]], [[- 2 * \<i>]], [[0]], [[2 * \<i>]]]\<rparr>"

definition T4 :: "complex DataGrid" where
  "T4 = \<lparr>n_grid = (4, 1, 1), spacing = Vec3d (1 / 4) 1 1, origin = Vec3d 0 0 0,
          nodes = [[[0]], [[0]], [[0]], [[0]]]\<rparr>"

definition R0 :: "real DataGrid" where
  "R0 = \<lparr>n_grid = (0, 0, 0), spacing = Vec3d 0 0 0, origin = Vec3d 0 0 0, nodes = []\<rparr>"

definition F4 :: "Vec3d DataGrid" where
  "F4 = \<lparr>n_grid = (4, 1, 1), spacing = Vec3d 1 1 1, origin = Vec3d 0 0 0,
          nodes = [[[Vec3d 0 0 0]], [[Vec3d 0 0 0]], [[Vec3d 0 0 0]], [[Vec3d 0 0 0]]]\<rparr>"

text \<open>
  The same energy on a lattice of \<open>4 \<times> 2 \<times> 2\<close> nodes with spacing 1 (constant along \<open>y\<close>
  and \<open>z\<close>): its spectrum \<open>E8\<close> with the reciprocal spacing
  \<open>(1 / (4 \<cdot> 1), 1 / (2 \<cdot> 1), 1 / (2 \<cdot> 1))\<close>, the scratch grid \<open>T8\<close> and the zero force
  lattice \<open>F8\<close>.
\<close>

definition E8 :: "complex DataGrid" where
  "E8 = \<lparr>n_grid = (4, 2, 2), spacing = Vec3d (1 / 4) (1 / 2) (1 / 2), origin = Vec3d 0 0 0,
          nodes = [[[0, 0], [0, 0]], [[- 8 * \<i>, 0], [0, 0]], [[0, 0], [0, 0]],
                   [[8 * \<i>, 0], [0, 0]]]\<rparr>"

definition T8 :: "complex DataGrid" where
  "T8 = \<lparr>n_grid = (4, 2, 2), spacing = Vec3d (1 / 4) (1 / 2) (1 / 2), origin = Vec3d 0 0 0,
          nodes = [[[0, 0], [0, 0]], [[0, 0], [0, 0]], [[0, 0], [0, 0]], [[0, 0], [0, 0]]]\<rparr>"

definition F8 :: "Vec3d DataGrid" where
  "F8 = \<lparr>n_grid = (4, 2, 2), spacing = Vec3d 1 1 1, origin = Vec3d 0 0 0,
          nodes = [[[Vec3d 0 0 0, Vec3d 0 0 0], [Vec3d 0 0 0, Vec3d 0 0 0]],
                   [[Vec3d 0 0 0, Vec3d 0 0 0], [Vec3d 0 0 0, Vec3d 0 0 0]],
                   [[Vec3d 0 0 0, Vec3d 0 0 0], [Vec3d 0 0 0, Vec3d 0 0 0]],
                   [[Vec3d 0 0 0, Vec3d 0 0 0], [Vec3d 0 0 0, Vec3d 0 0 0]]]\<rparr>"

text \<open>
  Two list operations for reasoning about the loops: \<open>app i f\<close> applies \<open>f\<close> at index
  \<open>i\<close>, \<open>mapn n f\<close> applies \<open>f i\<close> at every index \<open>i < n\<close>.
\<close>

definition app :: "nat \<Rightarrow> ('a \<Rightarrow> 'a) \<Rightarrow> 'a list \<Rightarrow> 'a list" where
  "app i f xs = xs[i := f (xs ! i)]"

definition mapn :: "nat \<Rightarrow> (nat \<Rightarrow> 'a \<Rightarrow> 'a) \<Rightarrow> 'a list \<Rightarrow> 'a list" where
  "mapn n f xs = map (\<lambda>i. if i < n then f i (xs ! i) else xs ! i) [0..<length xs]"

section \<open>Accumulator updates\<close>

lemma length_add_at [simp]: "length (add_at xs i v) = length xs"
  by (simp add: add_at_def)

lemma length_sub_at [simp]: "length (sub_at xs i v) = length xs"
  by (simp add: sub_at_def)

lemma length_add_z_at [simp]: "length (add_z_at xs i c) = length xs"
  by (simp add: add_z_at_def)

lemma nth_add_at: "i < length xs \<Longrightarrow> add_at xs i v ! j = (if j = i then xs ! i + v else xs ! j)"
  by (simp add: add_at_def)

lemma nth_sub_at: "i < length xs \<Longrightarrow> sub_at xs i v ! j = (if j = i then xs ! i - v else xs ! j)"
  by (simp add: sub_at_def)

lemma nth_add_z_at:
  "i < length xs \<Longrightarrow>
   add_z_at xs i c ! j = (if j = i then Vec3d (x3 (xs ! i)) (y3 (xs ! i)) (z3 (xs ! i) + c) else xs ! j)"
  by (simp add: add_z_at_def)

lemma nth_add_at_other: "j \<noteq> i \<Longrightarrow> add_at xs i v ! j = xs ! j"
  by (simp add: add_at_def)

lemma nth_sub_at_other: "j \<noteq> i \<Longrightarrow> sub_at xs i v ! j = xs ! j"
  by (simp add: sub_at_def)

lemma nth_add_z_at_other: "j \<noteq> i \<Longrightarrow> add_z_at xs i c ! j = xs ! j"
  by (simp add: add_z_at_def)

lemma add_at_zero: "add_at xs i (0::'a::monoid_add) = xs"
  by (simp add: add_at_def)


lemma add_z_at_zero: "add_z_at xs i 0 = xs"
  by (simp add: add_z_at_def)

lemma sum_list_add_at:
  fixes xs :: "real list"
  shows "i < length xs \<Longrightarrow> sum_list (add_at xs i v) = sum_list xs + v"
proof (induction xs arbitrary: i)
  case Nil
  then show ?case by simp
next
  case (Cons a xs)
  then show ?case
    by (cases i) (simp_all add: add_at_def)
qed

lemma len_smul: "len (smul a v) = \<bar>a\<bar> * len v"
proof -
  have "lensqr (smul a v) = a\<^sup>2 * lensqr v"
    by (simp add: lensqr_def smul_def power2_eq_square algebra_simps)
  then show ?thesis
    by (simp add: len_def real_sqrt_mult)
qed

lemma len_x_axis: "len (Vec3d a 0 0) = \<bar>a\<bar>"
  by (simp add: len_def lensqr_def)

section \<open>Two-body kernels\<close>

text \<open>
  All five two-body kernels end in the same four statements: the pair energy \<open>e\<close> is
  added at both participants, the force \<open>f\<close> is added at the first and subtracted at the
  second.
\<close>

lemma two_body_forces:
  assumes "two_body k = Some (i1, i2)"
  shows "\<exists>f. fst (eval tol k positions (forces, energies)) = sub_at (add_at forces i1 f) i2 f"
  using assms
  by (cases k)
    (auto simp add: LJ_eval_def Morse_eval_def Coulomb_eval_def TipHarmonic_eval_def
      Harmonic_eval_def Let_def)

lemma two_body_energies:
  assumes "two_body k = Some (i1, i2)"
  shows "snd (eval tol k positions (forces, energies)) =
           add_at (add_at energies i1 (pair_energy k positions)) i2 (pair_energy k positions)"
  using assms
  by (cases k)
    (auto simp add: LJ_eval_def Morse_eval_def Coulomb_eval_def TipHarmonic_eval_def
      Harmonic_eval_def Let_def)

text \<open>
  Claim C4. For each of the two-body kernels (Lennard-Jones, Morse, Coulomb, harmonic
  bond, planar tip restraint) with two distinct participants in range at distinct
  positions, what \<open>eval\<close> adds to the force of the first participant is the negation of
  what it adds to the force of the second.
\<close>

theorem two_body_antisymmetric:
  assumes "two_body k = Some (i1, i2)"
    and "i1 < length forces" and "i2 < length forces" and "i1 \<noteq> i2"
    and "positions ! i1 \<noteq> positions ! i2"
  shows "fst (eval tol k positions (forces, energies)) ! i1 - forces ! i1
         = - (fst (eval tol k positions (forces, energies)) ! i2 - forces ! i2)"
proof -
  obtain f where ev: "fst (eval tol k positions (forces, energies)) = sub_at (add_at forces i1 f) i2 f"
    using two_body_forces [OF assms(1)] by blast
  have a: "sub_at (add_at forces i1 f) i2 f ! i1 = forces ! i1 + f"
    using assms by (simp add: nth_sub_at nth_add_at)
  have b: "sub_at (add_at forces i1 f) i2 f ! i2 = forces ! i2 - f"
    using assms by (simp add: nth_sub_at nth_add_at)
  show ?thesis
    unfolding ev a b by simp
qed

theorem two_body_antisymmetric_witness:
  "two_body (CoulombInteraction 0 1 1) = Some (0, 1)
   \<and> (0::nat) < length [0, 0 :: Vec3d] \<and> (1::nat) < length [0, 0 :: Vec3d] \<and> (0::nat) \<noteq> 1
   \<and> [Vec3d 1 0 0, Vec3d 0 0 0] ! 0 \<noteq> [Vec3d 1 0 0, Vec3d 0 0 0] ! 1
   \<and> fst (eval 0 (CoulombInteraction 0 1 1) [Vec3d 1 0 0, Vec3d 0 0 0] ([0, 0], [0, 0])) ! 0 - [0, 0] ! 0
       = - (fst (eval 0 (CoulombInteraction 0 1 1) [Vec3d 1 0 0, Vec3d 0 0 0] ([0, 0], [0, 0])) ! 1 - [0, 0] ! 1)"
  using two_body_antisymmetric [of "CoulombInteraction 0 1 1" 0 1 "[0, 0]"
      "[Vec3d 1 0 0, Vec3d 0 0 0]" 0 "[0, 0]"]
  by simp

text \<open>
  Claim C6. Each two-body kernel with two distinct participants in range (at distinct
  positions, so that the quotients of the pair energy are defined) adds its full pair
  energy \<open>e\<close> to the energy of the first participant and again to the energy of the
  second, so the sum of all per-particle energies grows by \<open>2 e\<close>.
\<close>

theorem two_body_energy_both:
  assumes "two_body k = Some (i1, i2)"
    and "i1 < length energies" and "i2 < length energies" and "i1 \<noteq> i2"
    and "positions ! i1 \<noteq> positions ! i2"
  shows "snd (eval tol k positions (forces, energies)) ! i1 = energies ! i1 + pair_energy k positions
       \<and> snd (eval tol k positions (forces, energies)) ! i2 = energies ! i2 + pair_energy k positions
       \<and> sum_list (snd (eval tol k positions (forces, energies)))
           = sum_list energies + 2 * pair_energy k positions"
  unfolding two_body_energies [OF assms(1)]
  using assms(2-4) by (simp add: nth_add_at sum_list_add_at)

theorem two_body_energy_both_witness:
  "two_body (HarmonicInteraction 0 1 1 0) = Some (0, 1)
   \<and> (0::nat) < length [0, 0 :: real] \<and> (1::nat) < length [0, 0 :: real] \<and> (0::nat) \<noteq> 1
   \<and> [Vec3d 1 0 0, Vec3d 0 0 0] ! 0 \<noteq> [Vec3d 1 0 0, Vec3d 0 0 0] ! 1
   \<and> snd (eval 0 (HarmonicInteraction 0 1 1 0) [Vec3d 1 0 0, Vec3d 0 0 0] ([0, 0], [0, 0])) ! 0
       = [0, 0] ! 0 + pair_energy (HarmonicInteraction 0 1 1 0) [Vec3d 1 0 0, Vec3d 0 0 0]
   \<and> snd (eval 0 (HarmonicInteraction 0 1 1 0) [Vec3d 1 0 0, Vec3d 0 0 0] ([0, 0], [0, 0])) ! 1
       = [0, 0] ! 1 + pair_energy (HarmonicInteraction 0 1 1 0) [Vec3d 1 0 0, Vec3d 0 0 0]
   \<and> sum_list (snd (eval 0 (HarmonicInteraction 0 1 1 0) [Vec3d 1 0 0, Vec3d 0 0 0] ([0, 0], [0, 0])))
       = sum_list [0, 0] + 2 * pair_energy (HarmonicInteraction 0 1 1 0) [Vec3d 1 0 0, Vec3d 0 0 0]
   \<and> pair_energy (HarmonicInteraction 0 1 1 0) [Vec3d 1 0 0, Vec3d 0 0 0] = 1"
  using two_body_energy_both [of "HarmonicInteraction 0 1 1 0" 0 1 "[0, 0]"
      "[Vec3d 1 0 0, Vec3d 0 0 0]" 0 "[0, 0]"]
  by (simp add: len_def lensqr_def minus_Vec3d_def)

text \<open>
  Claim C8. The Lennard-Jones kernel with \<open>es12 = 1\<close> and \<open>es6 = 1\<close>, at positions whose
  separation is \<open>r = 1\<close>, adds the energy 0 to each participant; the force it adds to the
  first participant (and subtracts from the second) is six times the separation vector,
  a vector of magnitude 6.
\<close>

theorem LJ_unit_separation:
  assumes "i1 < length forces" and "i2 < length forces"
    and "i1 < length energies" and "i2 < length energies" and "i1 \<noteq> i2"
    and "len (positions ! i1 - positions ! i2) = 1"
  shows "snd (LJ_eval i1 i2 1 1 positions (forces, energies)) ! i1 = energies ! i1 + 0
       \<and> snd (LJ_eval i1 i2 1 1 positions (forces, energies)) ! i2 = energies ! i2 + 0
       \<and> fst (LJ_eval i1 i2 1 1 positions (forces, energies)) ! i1
           = forces ! i1 + smul 6 (positions ! i1 - positions ! i2)
       \<and> fst (LJ_eval i1 i2 1 1 positions (forces, energies)) ! i2
           = forces ! i2 - smul 6 (positions ! i1 - positions ! i2)
       \<and> len (smul 6 (positions ! i1 - positions ! i2)) = 6"
proof -
  have sq: "lensqr (positions ! i1 - positions ! i2) = 1"
    using assms(6) by (simp add: len_def)
  have l: "len (smul 6 (positions ! i1 - positions ! i2)) = 6"
    using assms(6) by (simp add: len_smul)
  show ?thesis
    using assms(1-5) l
    by (simp add: LJ_eval_def Let_def sq nth_add_at nth_sub_at)
qed

theorem LJ_unit_separation_witness:
  "(0::nat) < length [0, 0 :: Vec3d] \<and> (1::nat) < length [0, 0 :: Vec3d]
   \<and> (0::nat) < length [0, 0 :: real] \<and> (1::nat) < length [0, 0 :: real] \<and> (0::nat) \<noteq> 1
   \<and> len ([Vec3d 0 0 1, Vec3d 0 0 0] ! 0 - [Vec3d 0 0 1, Vec3d 0 0 0] ! 1) = 1
   \<and> LJ_eval 0 1 1 1 [Vec3d 0 0 1, Vec3d 0 0 0] ([0, 0], [0, 0])
       = ([Vec3d 0 0 6, Vec3d 0 0 (- 6)], [0, 0])"
proof -
  have l: "len ([Vec3d 0 0 1, Vec3d 0 0 0] ! 0 - [Vec3d 0 0 1, Vec3d 0 0 0] ! 1) = 1"
    by (simp add: len_def lensqr_def minus_Vec3d_def)
  have "length (fst (LJ_eval 0 1 1 1 [Vec3d 0 0 1, Vec3d 0 0 0] ([0, 0], [0, 0]))) = 2"
    "length (snd (LJ_eval 0 1 1 1 [Vec3d 0 0 1, Vec3d 0 0 0] ([0, 0], [0, 0]))) = 2"
    by (simp_all add: LJ_eval_def Let_def)
  then show ?thesis
    using l LJ_unit_separation [of 0 "[0, 0]" 1 "[0, 0]" "[Vec3d 0 0 1, Vec3d 0 0 0]"]
    by (simp add: prod_eq_iff list_eq_iff_nth_eq less_Suc_eq smul_def minus_Vec3d_def
        zero_Vec3d_def plus_Vec3d_def numeral_2_eq_2 all_conj_distrib)
qed

section \<open>The grid-lookup kernels\<close>

text \<open>
  Claim C10. The electrostatic-potential kernel and the generic grid kernel, whatever
  force grid they were built with, read the position array at index 1 only and add the
  interpolated force and energy at index 1 of the accumulators; every other entry of
  both accumulators is left as it was.
\<close>

theorem grid_kernels_index_1:
  assumes "k = ElectrostaticPotentialInteraction g \<or> k = GridInteraction g"
    and "1 < length positions" and "1 < length forces" and "1 < length energies"
  shows "eval tol k positions (forces, energies)
           = (forces[1 := forces ! 1 + fst (g (positions ! 1))],
              energies[1 := energies ! 1 + snd (g (positions ! 1))])
       \<and> (\<forall>j. j \<noteq> 1 \<longrightarrow>
             fst (eval tol k positions (forces, energies)) ! j = forces ! j
           \<and> snd (eval tol k positions (forces, energies)) ! j = energies ! j)
       \<and> (\<forall>positions'. positions' ! 1 = positions ! 1 \<longrightarrow>
             eval tol k positions' (forces, energies) = eval tol k positions (forces, energies))"
  using assms
  by (auto simp add: ElectrostaticPotential_eval_def Grid_eval_def add_at_def
      split: prod.splits)

theorem grid_kernels_index_1_witness:
  "(1::nat) < length [Vec3d 9 9 9, Vec3d 1 2 3] \<and> (1::nat) < length [Vec3d 0 0 0, Vec3d 0 0 1]
   \<and> (1::nat) < length [5, 7 :: real]
   \<and> eval 0 (GridInteraction (\<lambda>p. (p, x3 p))) [Vec3d 9 9 9, Vec3d 1 2 3]
        ([Vec3d 0 0 0, Vec3d 0 0 1], [5, 7])
      = ([Vec3d 0 0 0, Vec3d 1 2 4], [5, 8])"
  using grid_kernels_index_1 [of "GridInteraction (\<lambda>p. (p, x3 p))" "\<lambda>p. (p, x3 p)"
      "[Vec3d 9 9 9, Vec3d 1 2 3]" "[Vec3d 0 0 0, Vec3d 0 0 1]" "[5, 7]" 0]
  by (simp add: plus_Vec3d_def)

section \<open>The substrate wall\<close>

text \<open>
  Claim C7. With \<open>dz\<close> the height of the particle above \<open>z0\<close>: beyond the cutoff
  (\<open>dz > rc\<close>) the substrate kernel leaves both accumulators as they were; at or below
  the cutoff (for \<open>dz \<noteq> 0\<close>, where the quotients are defined) it adds the force
  \<open>4 m / dz \<cdot> ((sig/dz)\<^sup>1\<^sup>0 - (sig/dz)\<^sup>4) + 2 ulj dz\<close> to the \<open>z\<close> component and the energy
  \<open>m (2/5 (sig/dz)\<^sup>1\<^sup>0 - (sig/dz)\<^sup>4) + ulj dz\<^sup>2 - ushift\<close>; in every case the \<open>x\<close> and \<open>y\<close>
  components of the particle's force and the entries of all other particles are
  unchanged.
\<close>

theorem substrate_wall:
  assumes "i < length forces" and "i < length energies" and "i < length positions"
    and "dz = z3 (positions ! i) - z0"
    and "acc' = Substrate_eval i z0 sig multiplier ulj ushift rc positions (forces, energies)"
  shows "(rc < dz \<longrightarrow> acc' = (forces, energies))
       \<and> (dz \<le> rc \<and> dz \<noteq> 0 \<longrightarrow>
             z3 (fst acc' ! i) = z3 (forces ! i)
               + (4 * multiplier / dz * ((sig / dz) ^ 10 - (sig / dz) ^ 4) + 2 * ulj * dz)
           \<and> snd acc' ! i = energies ! i
               + (multiplier * (2 / 5 * (sig / dz) ^ 10 - (sig / dz) ^ 4) + ulj * dz\<^sup>2 - ushift))
       \<and> x3 (fst acc' ! i) = x3 (forces ! i) \<and> y3 (fst acc' ! i) = y3 (forces ! i)
       \<and> length (fst acc') = length forces \<and> length (snd acc') = length energies
       \<and> (\<forall>j. j \<noteq> i \<longrightarrow> fst acc' ! j = forces ! j \<and> snd acc' ! j = energies ! j)"
proof -
  define s where "s = sig / dz"
  have p4: "s * s * (s * s) = s ^ 4"
    by (simp add: numeral_eq_Suc mult.assoc)
  have p10: "s ^ 4 * s ^ 4 * (s * s) = s ^ 10"
    by (simp add: numeral_eq_Suc mult.assoc)
  show ?thesis
    using assms(1-3)
    unfolding assms(5) Substrate_eval_def Let_def assms(4)[symmetric] s_def[symmetric] p4 p10
    by (simp add: nth_add_z_at nth_add_at add_z_at_zero add_at_zero nth_add_z_at_other
        nth_add_at_other power2_eq_square)
qed

theorem substrate_wall_witness:
  "Substrate_eval 0 0 2 1 0 0 2 [Vec3d 0 0 3] ([Vec3d 7 8 9], [5]) = ([Vec3d 7 8 9], [5])
   \<and> Substrate_eval 0 0 2 1 0 0 2 [Vec3d 0 0 1] ([Vec3d 7 8 9], [5])
       = ([Vec3d 7 8 4041], [5 + 1968 / 5])"
proof -
  have a: "Substrate_eval 0 0 2 1 0 0 2 [Vec3d 0 0 3] ([Vec3d 7 8 9], [5]) = ([Vec3d 7 8 9], [5])"
    using substrate_wall [of 0 "[Vec3d 7 8 9]" "[5]" "[Vec3d 0 0 3]" 3 0 _ 2 1 0 0 2, OF _ _ _ _ refl]
    by simp
  obtain fs es where b: "Substrate_eval 0 0 2 1 0 0 2 [Vec3d 0 0 1] ([Vec3d 7 8 9], [5]) = (fs, es)"
    by (cases "Substrate_eval 0 0 2 1 0 0 2 [Vec3d 0 0 1] ([Vec3d 7 8 9], [5])")
  have "z3 (fs ! 0) = 4041 \<and> es ! 0 = 5 + 1968 / 5 \<and> x3 (fs ! 0) = 7 \<and> y3 (fs ! 0) = 8
        \<and> length fs = 1 \<and> length es = 1"
    using substrate_wall [of 0 "[Vec3d 7 8 9]" "[5]" "[Vec3d 0 0 1]" 1 0 _ 2 1 0 0 2, OF _ _ _ _ refl]
    by (simp add: b)
  then have "fs = [Vec3d 7 8 4041] \<and> es = [5 + 1968 / 5]"
    by (cases fs; cases es; cases "fs ! 0") auto
  then show ?thesis
    using a b by simp
qed

section \<open>The minimum-length guard\<close>

text \<open>
  The Coulomb kernel has no guard: at any non-zero separation \<open>a\<close> along \<open>x\<close>, however
  small and whatever the tolerance, it adds the force \<open>qq / a\<^sup>2\<close> to its first participant.
\<close>

lemma Coulomb_unguarded:
  assumes "0 < a"
  shows "fst (eval tol (CoulombInteraction 0 1 qq) [Vec3d a 0 0, Vec3d 0 0 0]
            ([Vec3d 0 0 0, Vec3d 0 0 0], [0, 0])) ! 0 = Vec3d (qq / (a * a)) 0 0"
  using assms
  by (simp add: Coulomb_eval_def Let_def len_x_axis smul_def add_at_def sub_at_def
      plus_Vec3d_def minus_Vec3d_def)





section \<open>Loops over a lattice\<close>

lemma length_app [simp]: "length (app i f xs) = length xs"
  by (simp add: app_def)

lemma length_mapn [simp]: "length (mapn n f xs) = length xs"
  by (simp add: mapn_def)

lemma nth_mapn: "i < length xs \<Longrightarrow> mapn n f xs ! i = (if i < n then f i (xs ! i) else xs ! i)"
  by (simp add: mapn_def)

lemma mapn_0: "mapn 0 f xs = xs"
  by (rule nth_equalityI) (simp_all add: mapn_def)

lemma app_mapn: "app n (f n) (mapn n f xs) = mapn (Suc n) f xs"
proof (rule nth_equalityI)
  show "length (app n (f n) (mapn n f xs)) = length (mapn (Suc n) f xs)"
    by simp
next
  fix i
  assume "i < length (app n (f n) (mapn n f xs))"
  then have i: "i < length xs" by simp
  show "app n (f n) (mapn n f xs) ! i = mapn (Suc n) f xs ! i"
  proof (cases "i = n")
    case True
    with i show ?thesis by (simp add: app_def mapn_def)
  next
    case False
    with i show ?thesis by (auto simp add: app_def mapn_def)
  qed
qed

text \<open>A loop that rewrites the element at its index rewrites every element below the bound.\<close>

lemma fold_app_upt: "fold (\<lambda>i. app i (f i)) [0..<n] = mapn n f"
proof
  fix xs :: "'a list"
  show "fold (\<lambda>i. app i (f i)) [0..<n] xs = mapn n f xs"
    by (induction n) (simp_all add: mapn_0 app_mapn)
qed

lemma app_app: "app i f (app i g xs) = app i (f \<circ> g) xs"
  by (cases "i < length xs") (simp_all add: app_def list_update_beyond)

text \<open>A loop that works inside one element is one update of that element.\<close>

lemma fold_app_same: "fold (\<lambda>j. app i (g j)) js = app i (fold g js)"
proof
  fix xs :: "'a list"
  show "fold (\<lambda>j. app i (g j)) js xs = app i (fold g js) xs"
  proof (induction js arbitrary: xs)
    case Nil
    then show ?case by (simp add: app_def)
  next
    case (Cons j js)
    have "fold (\<lambda>j. app i (g j)) (j # js) xs = app i (fold g js) (app i (g j) xs)"
      using Cons by simp
    also have "\<dots> = app i (fold g js \<circ> g j) xs"
      by (rule app_app)
    finally show ?case by (simp add: comp_def)
  qed
qed

lemma mapn_eq_map:
  assumes "length xs = n" and "\<And>i. i < n \<Longrightarrow> f i (xs ! i) = c i"
  shows "mapn n f xs = map c [0..<n]"
  using assms by (intro nth_equalityI) (simp_all add: nth_mapn)

lemma fold_nodes:
  fixes g :: "'a DataGrid"
  shows "fold (\<lambda>i g. g\<lparr>nodes := F i (nodes g)\<rparr>) is g = g\<lparr>nodes := fold F is (nodes g)\<rparr>"
  by (induction "is" arbitrary: g) simp_all

lemma set3_app:
  "set3 g ix iy iz (h (at3 g ix iy iz)) = g\<lparr>nodes := app ix (app iy (app iz h)) (nodes g)\<rparr>"
  by (simp add: set3_def at3_def app_def)

lemma for3_update:
  fixes g :: "'a DataGrid"
  shows "for3 (nx, ny, nz) (\<lambda>ix iy iz g. set3 g ix iy iz (h ix iy iz (at3 g ix iy iz))) g
     = g\<lparr>nodes := mapn nx (\<lambda>ix. mapn ny (\<lambda>iy. mapn nz (\<lambda>iz. h ix iy iz))) (nodes g)\<rparr>"
proof -
  have inner: "fold (\<lambda>iz g. set3 g ix iy iz (h ix iy iz (at3 g ix iy iz))) [0..<nz]
      = (\<lambda>g. g\<lparr>nodes := app ix (app iy (mapn nz (\<lambda>iz. h ix iy iz))) (nodes g)\<rparr>)" for ix iy
    unfolding set3_app
    using fold_nodes [of "\<lambda>iz. app ix (app iy (app iz (h ix iy iz)))" "[0..<nz]"]
    by (simp add: fold_app_same fold_app_upt fun_eq_iff)
  have middle: "fold (\<lambda>iy. fold (\<lambda>iz g. set3 g ix iy iz (h ix iy iz (at3 g ix iy iz))) [0..<nz]) [0..<ny]
      = (\<lambda>g. g\<lparr>nodes := app ix (mapn ny (\<lambda>iy. mapn nz (\<lambda>iz. h ix iy iz))) (nodes g)\<rparr>)" for ix
    unfolding inner
    using fold_nodes [of "\<lambda>iy. app ix (app iy (mapn nz (\<lambda>iz. h ix iy iz)))" "[0..<ny]"]
    by (simp add: fold_app_same fold_app_upt fun_eq_iff)
  show ?thesis
    unfolding for3_def prod.case middle
    using fold_nodes [of "\<lambda>ix. app ix (mapn ny (\<lambda>iy. mapn nz (\<lambda>iz. h ix iy iz)))" "[0..<nx]" g]
    by (simp add: fold_app_upt)
qed

lemma shaped_nth:
  assumes "shaped (nx, ny, nz) g"
  shows "length g = nx"
    and "ix < nx \<Longrightarrow> length (g ! ix) = ny"
    and "ix < nx \<Longrightarrow> iy < ny \<Longrightarrow> length (g ! ix ! iy) = nz"
  using assms by (auto simp add: shaped_def list_all_length)

lemma shaped_grid_of: "shaped n (grid_of n v)"
  by (cases n) (simp add: shaped_def grid_of_def list_all_length)

lemma nth_grid_of:
  "ix < nx \<Longrightarrow> iy < ny \<Longrightarrow> iz < nz \<Longrightarrow> grid_of (nx, ny, nz) v ! ix ! iy ! iz = v ix iy iz"
  by (simp add: grid_of_def)

lemma at3_update_nodes:
  fixes g :: "'a DataGrid"
  shows "ix < nx \<Longrightarrow> iy < ny \<Longrightarrow> iz < nz \<Longrightarrow>
    at3 (g\<lparr>nodes := grid_of (nx, ny, nz) v\<rparr>) ix iy iz = v ix iy iz"
  by (simp add: at3_def nth_grid_of)

text \<open>
  On a lattice of the loop's shape, the loop nest that rewrites every node from its old
  value leaves the lattice of the rewritten values.
\<close>

lemma for3_update_shaped:
  fixes g :: "'a DataGrid"
  assumes "shaped (nx, ny, nz) (nodes g)"
  shows "for3 (nx, ny, nz) (\<lambda>ix iy iz g. set3 g ix iy iz (h ix iy iz (at3 g ix iy iz))) g
     = g\<lparr>nodes := grid_of (nx, ny, nz) (\<lambda>ix iy iz. h ix iy iz (at3 g ix iy iz))\<rparr>"
proof -
  have line: "mapn nz (\<lambda>iz. h ix iy iz) (nodes g ! ix ! iy)
      = map (\<lambda>iz. h ix iy iz (at3 g ix iy iz)) [0..<nz]" if "ix < nx" "iy < ny" for ix iy
    by (rule mapn_eq_map) (simp_all add: that shaped_nth(3) [OF assms] at3_def)
  have row: "mapn ny (\<lambda>iy. mapn nz (\<lambda>iz. h ix iy iz)) (nodes g ! ix)
      = map (\<lambda>iy. map (\<lambda>iz. h ix iy iz (at3 g ix iy iz)) [0..<nz]) [0..<ny]" if "ix < nx" for ix
    by (rule mapn_eq_map) (simp_all add: that shaped_nth(2) [OF assms] line)
  have "mapn nx (\<lambda>ix. mapn ny (\<lambda>iy. mapn nz (\<lambda>iz. h ix iy iz))) (nodes g)
      = grid_of (nx, ny, nz) (\<lambda>ix iy iz. h ix iy iz (at3 g ix iy iz))"
    unfolding grid_of_def prod.case
    by (rule mapn_eq_map) (simp_all add: shaped_nth(1) [OF assms] row)
  then show ?thesis
    by (simp add: for3_update)
qed

section \<open>Wavenumbers\<close>

lemma k_points_eq:
  "k_points n dk
     = map (\<lambda>i. if i \<ge> n div 2 then real i * dk - real n * dk else real i * dk) [0..<n]"
proof -
  let ?w = "\<lambda>i. if i \<ge> n div 2 then real i * dk - real n * dk else real i * dk"
  have body: "(\<lambda>ix k_points.
             let k_points = k_points[ix := real ix * dk]
             in if ix \<ge> n div 2 then k_points[ix := k_points ! ix - real n * dk] else k_points)
      = (\<lambda>i. app i (\<lambda>_. ?w i))"
  proof (intro ext)
    fix i and ks :: "real list"
    show "(let k_points = ks[i := real i * dk]
          in if i \<ge> n div 2 then k_points[i := k_points ! i - real n * dk] else k_points)
        = app i (\<lambda>_. ?w i) ks"
      by (cases "i < length ks") (simp_all add: app_def Let_def list_update_beyond)
  qed
  show ?thesis
    unfolding k_points_def body fold_app_upt
    by (rule mapn_eq_map) simp_all
qed

lemma k_points_nth:
  "i < n \<Longrightarrow>
   k_points n dk ! i = (if i \<ge> n div 2 then real i * dk - real n * dk else real i * dk)"
  by (simp add: k_points_eq)

text \<open>
  On an axis with an even number of points the source assigns the wavenumbers of the
  standard unshifted ordering.
\<close>

lemma k_points_even:
  assumes "even n" and "i < n"
  shows "k_points n (kspace_spacing n s) ! i
     = (if real i < real n / 2 then real i / (real n * s) else (real i - real n) / (real n * s))"
proof -
  obtain m where n: "n = 2 * m"
    using assms(1) by (auto elim: evenE)
  have "(i \<ge> n div 2) = (\<not> real i < real n / 2)"
    unfolding n by auto
  then show ?thesis
    using assms(2) by (simp add: k_points_nth kspace_spacing_def diff_divide_distrib)
qed

text \<open>
  Claim C3. The claim includes odd \<open>N\<close>, and there the source differs from it: the
  comparison is with the integer quotient \<^verbatim>\<open>int(n_grid.x/2)\<close>, so on an axis of \<open>N = 5\<close>
  points with spacing \<open>s = 1\<close> the index \<open>i = 2\<close>, which is below \<open>N/2 = 2.5\<close>, gets the
  wavenumber \<open>(2 - 5)/5 = -3/5\<close> and not \<open>2/5\<close>.
\<close>

theorem k_points_odd_middle:
  "real 2 < real 5 / 2
   \<and> k_points 5 (kspace_spacing 5 1) ! 2 = (real 2 - real 5) / (real 5 * 1)
   \<and> k_points 5 (kspace_spacing 5 1) ! 2 \<noteq> real 2 / (real 5 * 1)"
  by (simp add: k_points_nth kspace_spacing_def)

section \<open>Force components\<close>

text \<open>
  The force at a node of the lattice that the constructor builds: each component is the
  value at that node of the inverse transform of the energy spectrum multiplied, node by
  node, by \<open>- 2 \<pi> \<i>\<close> and the wavenumber of that axis. The real scratch grid is written
  three times, each time over the result of the transform before.
\<close>

lemma force_from_energy_kspace_node:
  fixes temp_kspace energy_kspace :: "complex DataGrid" and force :: "Vec3d DataGrid"
  assumes "shaped (nx, ny, nz) (nodes temp_kspace)" and "shaped (nx, ny, nz) (nodes force)"
    and "ix < nx" and "iy < ny" and "iz < nz"
    and "kx = k_points nx (x3 (spacing energy_kspace))"
    and "ky = k_points ny (y3 (spacing energy_kspace))"
    and "kz = k_points nz (z3 (spacing energy_kspace))"
    and "rx = ffti (temp_kspace\<lparr>nodes := spectrum_times (- 2 * complex_of_real pi * \<i>) (nx, ny, nz)
                      (\<lambda>ix iy iz. kx ! ix) energy_kspace\<rparr>) temp_rspace"
    and "ry = ffti (temp_kspace\<lparr>nodes := spectrum_times (- 2 * complex_of_real pi * \<i>) (nx, ny, nz)
                      (\<lambda>ix iy iz. ky ! iy) energy_kspace\<rparr>) rx"
    and "rz = ffti (temp_kspace\<lparr>nodes := spectrum_times (- 2 * complex_of_real pi * \<i>) (nx, ny, nz)
                      (\<lambda>ix iy iz. kz ! iz) energy_kspace\<rparr>) ry"
  shows "at3 (force_from_energy_kspace ffti (nx, ny, nz) energy_kspace temp_kspace temp_rspace force)
           ix iy iz
         = Vec3d (at3 rx ix iy iz) (at3 ry ix iy iz) (at3 rz ix iy iz)"
proof -
  have k1: "for3 (nx, ny, nz) (\<lambda>ix iy iz g. set3 g ix iy iz (v ix iy iz)) g
      = g\<lparr>nodes := grid_of (nx, ny, nz) v\<rparr>"
    if "shaped (nx, ny, nz) (nodes g)" for g :: "complex DataGrid" and v
    using for3_update_shaped [OF that, of "\<lambda>ix iy iz _. v ix iy iz"] by simp
  have fx: "for3 (nx, ny, nz) (\<lambda>ix iy iz g. set3 g ix iy iz (set_x (at3 g ix iy iz) (at3 r ix iy iz))) g
      = g\<lparr>nodes := grid_of (nx, ny, nz) (\<lambda>ix iy iz. set_x (at3 g ix iy iz) (at3 r ix iy iz))\<rparr>"
    if "shaped (nx, ny, nz) (nodes g)" for g :: "Vec3d DataGrid" and r :: "real DataGrid"
    using for3_update_shaped [OF that, of "\<lambda>ix iy iz v. set_x v (at3 r ix iy iz)"] by simp
  have fy: "for3 (nx, ny, nz) (\<lambda>ix iy iz g. set3 g ix iy iz (set_y (at3 g ix iy iz) (at3 r ix iy iz))) g
      = g\<lparr>nodes := grid_of (nx, ny, nz) (\<lambda>ix iy iz. set_y (at3 g ix iy iz) (at3 r ix iy iz))\<rparr>"
    if "shaped (nx, ny, nz) (nodes g)" for g :: "Vec3d DataGrid" and r :: "real DataGrid"
    using for3_update_shaped [OF that, of "\<lambda>ix iy iz v. set_y v (at3 r ix iy iz)"] by simp
  have fz: "for3 (nx, ny, nz) (\<lambda>ix iy iz g. set3 g ix iy iz (set_z (at3 g ix iy iz) (at3 r ix iy iz))) g
      = g\<lparr>nodes := grid_of (nx, ny, nz) (\<lambda>ix iy iz. set_z (at3 g ix iy iz) (at3 r ix iy iz))\<rparr>"
    if "shaped (nx, ny, nz) (nodes g)" for g :: "Vec3d DataGrid" and r :: "real DataGrid"
    using for3_update_shaped [OF that, of "\<lambda>ix iy iz v. set_z v (at3 r ix iy iz)"] by simp
  have sel: "set_z (set_y (set_x v a) b) c = Vec3d a b c" for v a b c
    by (simp add: set_x_def set_y_def set_z_def)
  show ?thesis
    using assms(3-5)
    unfolding force_from_energy_kspace_def prod.case Let_def
    by (simp add: k1 fx fy fz assms(1,2) shaped_grid_of at3_update_nodes spectrum_times_def
        assms(6-11) sel mult.assoc)
qed

text \<open>The example lattice: the inverse transform at node 0 and the spectrum times \<open>c k\<close>.\<close>

lemma ffti_spec_origin_4:
  assumes "n_grid g = (4, 1, 1)"
  shows "at3 (ffti_spec g r) 0 0 0
    = Re (at3 g 0 0 0 + at3 g 1 0 0 + at3 g 2 0 0 + at3 g 3 0 0) / 4"
  by (simp add: ffti_spec_def assms at3_def nth_grid_of eval_nat_numeral)

lemma E4_nodes:
  "at3 E4 0 0 0 = 0" "at3 E4 1 0 0 = - 2 * \<i>" "at3 E4 2 0 0 = 0" "at3 E4 3 0 0 = 2 * \<i>"
  by (simp_all add: E4_def at3_def)

lemma spectrum_at_4:
  "ix < 4 \<Longrightarrow> at3 (T4\<lparr>nodes := spectrum_times c (4, 1, 1)
                      (\<lambda>ix iy iz. k_points 4 (x3 (spacing E4)) ! ix) E4\<rparr>) ix 0 0
     = c * complex_of_real (if ix \<ge> 2 then real ix / 4 - 1 else real ix / 4) * at3 E4 ix 0 0"
  by (simp add: spectrum_times_def at3_update_nodes k_points_nth E4_def)

lemma spectrum_sum_4:
  "at3 (ffti_spec (T4\<lparr>nodes := spectrum_times c (4, 1, 1)
                      (\<lambda>ix iy iz. k_points 4 (x3 (spacing E4)) ! ix) E4\<rparr>) R0) 0 0 0
     = Re (c * complex_of_real (1 / 4) * (- 2 * \<i>) + c * complex_of_real (3 / 4 - 1) * (2 * \<i>)) / 4"
proof -
  let ?g = "T4\<lparr>nodes := spectrum_times c (4, 1, 1)
                      (\<lambda>ix iy iz. k_points 4 (x3 (spacing E4)) ! ix) E4\<rparr>"
  have n: "n_grid ?g = (4, 1, 1)"
    by (simp add: T4_def)
  have "at3 ?g 0 0 0 = 0"
    using spectrum_at_4 [of 0 c] by (simp add: E4_nodes)
  moreover have "at3 ?g 1 0 0 = c * complex_of_real (1 / 4) * (- 2 * \<i>)"
    using spectrum_at_4 [of 1 c] by (simp add: E4_nodes [unfolded One_nat_def])
  moreover have "at3 ?g 2 0 0 = 0"
    using spectrum_at_4 [of 2 c] by (simp add: E4_nodes)
  moreover have "at3 ?g 3 0 0 = c * complex_of_real (3 / 4 - 1) * (2 * \<i>)"
    using spectrum_at_4 [of 3 c] by (simp add: E4_nodes)
  ultimately show ?thesis
    unfolding ffti_spec_origin_4 [OF n] by simp
qed

lemma shaped_4: "shaped (4, 1, 1) (nodes T4)" "shaped (4, 1, 1) (nodes F4)"
  by (simp_all add: shaped_def T4_def F4_def)

text \<open>
  Claim C2, as stated, fails: the factor in the source is \<open>- 2 \<pi> \<i>\<close>, not \<open>\<i> \<cdot> 2 \<pi>\<close> (a
  force is minus the gradient of the energy). On the example lattice, whose energy rises
  at node 0, the source's \<open>x\<close> component at node 0 is \<open>- \<pi> / 2\<close>, where the inverse
  transform of the spectrum times \<open>\<i> \<cdot> 2 \<pi> \<cdot> k\<^sub>x\<close> is \<open>\<pi> / 2\<close>.
\<close>

theorem spectral_sign_counterexample:
  "x3 (at3 (force_from_energy_kspace ffti_spec (4, 1, 1) E4 T4 R0 F4) 0 0 0) = - pi / 2
   \<and> at3 (ffti_spec (T4\<lparr>nodes := spectrum_times (\<i> * 2 * complex_of_real pi) (4, 1, 1)
                         (\<lambda>ix iy iz. k_points 4 (x3 (spacing E4)) ! ix) E4\<rparr>) R0) 0 0 0 = pi / 2
   \<and> x3 (at3 (force_from_energy_kspace ffti_spec (4, 1, 1) E4 T4 R0 F4) 0 0 0)
       \<noteq> at3 (ffti_spec (T4\<lparr>nodes := spectrum_times (\<i> * 2 * complex_of_real pi) (4, 1, 1)
                         (\<lambda>ix iy iz. k_points 4 (x3 (spacing E4)) ! ix) E4\<rparr>) R0) 0 0 0"
proof -
  have "x3 (at3 (force_from_energy_kspace ffti_spec (4, 1, 1) E4 T4 R0 F4) 0 0 0)
      = at3 (ffti_spec (T4\<lparr>nodes := spectrum_times (- 2 * complex_of_real pi * \<i>) (4, 1, 1)
                         (\<lambda>ix iy iz. k_points 4 (x3 (spacing E4)) ! ix) E4\<rparr>) R0) 0 0 0"
    by (subst force_from_energy_kspace_node [OF shaped_4 _ _ _ refl refl refl refl refl refl])
      simp_all
  also have "\<dots> = - pi / 2"
    unfolding spectrum_sum_4 by simp
  finally have a: "x3 (at3 (force_from_energy_kspace ffti_spec (4, 1, 1) E4 T4 R0 F4) 0 0 0)
      = - pi / 2" .
  have b: "at3 (ffti_spec (T4\<lparr>nodes := spectrum_times (\<i> * 2 * complex_of_real pi) (4, 1, 1)
                         (\<lambda>ix iy iz. k_points 4 (x3 (spacing E4)) ! ix) E4\<rparr>) R0) 0 0 0 = pi / 2"
    unfolding spectrum_sum_4 by simp
  have "- pi / 2 \<noteq> pi / 2"
    using pi_gt_zero by simp
  then show ?thesis
    unfolding a b by simp
qed

lemma grid_of_cong:
  assumes "\<And>ix iy iz. ix < nx \<Longrightarrow> iy < ny \<Longrightarrow> iz < nz \<Longrightarrow> v ix iy iz = w ix iy iz"
  shows "grid_of (nx, ny, nz) v = grid_of (nx, ny, nz) w"
  using assms by (simp add: grid_of_def)

text \<open>On an even axis the wavenumbers of the source are those of the spec.\<close>

lemma k_points_spec_wavenumber:
  assumes "even n" and "dk = kspace_spacing n s" and "i < n"
  shows "k_points n dk ! i = spec_wavenumber n s i"
  using assms k_points_even [of n i s] by (simp add: spec_wavenumber_def)

lemma shaped_8: "shaped (4, 2, 2) (nodes T8)" "shaped (4, 2, 2) (nodes F8)"
  by (simp_all add: shaped_def T8_def F8_def)

lemma ffti_spec_origin_8:
  assumes "n_grid g = (4, 2, 2)"
  shows "at3 (ffti_spec g r) 0 0 0
    = Re (\<Sum>ix<4. \<Sum>iy<2. \<Sum>iz<2. at3 g ix iy iz) / 16"
  by (simp add: ffti_spec_def assms at3_def nth_grid_of)

lemma spectrum_sum_8:
  "at3 (ffti_spec (T8\<lparr>nodes := spectrum_times c (4, 2, 2)
                      (\<lambda>ix iy iz. spec_wavenumber 4 1 ix) E8\<rparr>) R0) 0 0 0
     = Re (c * complex_of_real (1 / 4) * (- 8 * \<i>) + c * complex_of_real (3 / 4 - 1) * (8 * \<i>)) / 16"
proof -
  let ?g = "T8\<lparr>nodes := spectrum_times c (4, 2, 2)
                      (\<lambda>ix iy iz. spec_wavenumber 4 1 ix) E8\<rparr>"
  have n: "n_grid ?g = (4, 2, 2)"
    by (simp add: T8_def)
  have v: "at3 ?g ix iy iz = c * complex_of_real (spec_wavenumber 4 1 ix) * at3 E8 ix iy iz"
    if "ix < 4" "iy < 2" "iz < 2" for ix iy iz
    using that by (simp add: spectrum_times_def at3_update_nodes)
  have "(\<Sum>ix<4. \<Sum>iy<2. \<Sum>iz<2. at3 ?g ix iy iz)
      = (\<Sum>ix<4. \<Sum>iy<2. \<Sum>iz<2. c * complex_of_real (spec_wavenumber 4 1 ix) * at3 E8 ix iy iz)"
    by (intro sum.cong refl) (simp add: v)
  also have "\<dots> = c * complex_of_real (1 / 4) * (- 8 * \<i>) + c * complex_of_real (3 / 4 - 1) * (8 * \<i>)"
    by (simp add: eval_nat_numeral E8_def at3_def spec_wavenumber_def)
  finally show ?thesis
    unfolding ffti_spec_origin_8 [OF n] by simp
qed

text \<open>
  Claim C2, amended. In the spectral builder, on a lattice with an even number of points
  along each of the three axes, each force component field equals, at every node of the
  lattice, the inverse transform of the energy spectrum multiplied pointwise by
  \<open>- \<i> \<cdot> 2 \<pi>\<close> (minus \<open>\<i>\<close> times \<open>2 \<pi>\<close>) times the corresponding wavenumber component, the
  wavenumber of index \<open>i\<close> on an axis of \<open>N\<close> points and spacing \<open>s\<close> being \<open>i / (N s)\<close> for
  \<open>i < N / 2\<close> and \<open>(i - N) / (N s)\<close> for \<open>i \<ge> N / 2\<close>. (The scratch grid and the force lattice
  have the shape of the lattice, the spectrum has the reciprocal spacing \<open>1 / (N s)\<close>.)
\<close>

theorem force_components_spectral:
  fixes temp_kspace energy_kspace :: "complex DataGrid" and force :: "Vec3d DataGrid"
  assumes "shaped (nx, ny, nz) (nodes temp_kspace)" and "shaped (nx, ny, nz) (nodes force)"
    and "even nx" and "even ny" and "even nz"
    and "ix < nx" and "iy < ny" and "iz < nz"
    and "spacing energy_kspace
           = Vec3d (kspace_spacing nx sx) (kspace_spacing ny sy) (kspace_spacing nz sz)"
    and "rx = ffti (temp_kspace\<lparr>nodes := spectrum_times (- \<i> * 2 * complex_of_real pi) (nx, ny, nz)
                      (\<lambda>ix iy iz. spec_wavenumber nx sx ix) energy_kspace\<rparr>) temp_rspace"
    and "ry = ffti (temp_kspace\<lparr>nodes := spectrum_times (- \<i> * 2 * complex_of_real pi) (nx, ny, nz)
                      (\<lambda>ix iy iz. spec_wavenumber ny sy iy) energy_kspace\<rparr>) rx"
    and "rz = ffti (temp_kspace\<lparr>nodes := spectrum_times (- \<i> * 2 * complex_of_real pi) (nx, ny, nz)
                      (\<lambda>ix iy iz. spec_wavenumber nz sz iz) energy_kspace\<rparr>) ry"
    and "force' = force_from_energy_kspace ffti (nx, ny, nz) energy_kspace temp_kspace temp_rspace force"
  shows "x3 (at3 force' ix iy iz) = at3 rx ix iy iz
       \<and> y3 (at3 force' ix iy iz) = at3 ry ix iy iz
       \<and> z3 (at3 force' ix iy iz) = at3 rz ix iy iz"
proof -
  have c: "- \<i> * 2 * complex_of_real pi = - 2 * complex_of_real pi * \<i>"
    by simp
  have sx: "spectrum_times c (nx, ny, nz) (\<lambda>ix iy iz. spec_wavenumber nx sx ix) energy_kspace
      = spectrum_times c (nx, ny, nz)
          (\<lambda>ix iy iz. k_points nx (x3 (spacing energy_kspace)) ! ix) energy_kspace" for c
    unfolding spectrum_times_def
    by (rule grid_of_cong) (simp add: k_points_spec_wavenumber [OF assms(3)] assms(9))
  have sy: "spectrum_times c (nx, ny, nz) (\<lambda>ix iy iz. spec_wavenumber ny sy iy) energy_kspace
      = spectrum_times c (nx, ny, nz)
          (\<lambda>ix iy iz. k_points ny (y3 (spacing energy_kspace)) ! iy) energy_kspace" for c
    unfolding spectrum_times_def
    by (rule grid_of_cong) (simp add: k_points_spec_wavenumber [OF assms(4)] assms(9))
  have sz: "spectrum_times c (nx, ny, nz) (\<lambda>ix iy iz. spec_wavenumber nz sz iz) energy_kspace
      = spectrum_times c (nx, ny, nz)
          (\<lambda>ix iy iz. k_points nz (z3 (spacing energy_kspace)) ! iz) energy_kspace" for c
    unfolding spectrum_times_def
    by (rule grid_of_cong) (simp add: k_points_spec_wavenumber [OF assms(5)] assms(9))
  show ?thesis
    unfolding assms(13)
      force_from_energy_kspace_node [OF assms(1,2,6,7,8) refl refl refl
        assms(10) [unfolded c sx] assms(11) [unfolded c sy] assms(12) [unfolded c sz]]
    by simp
qed

theorem force_components_spectral_witness:
  "shaped (4, 2, 2) (nodes T8) \<and> shaped (4, 2, 2) (nodes F8)
   \<and> even (4::nat) \<and> even (2::nat) \<and> (0::nat) < 4 \<and> (0::nat) < 2
   \<and> spacing E8 = Vec3d (kspace_spacing 4 1) (kspace_spacing 2 1) (kspace_spacing 2 1)
   \<and> x3 (at3 (force_from_energy_kspace ffti_spec (4, 2, 2) E8 T8 R0 F8) 0 0 0)
       = at3 (ffti_spec (T8\<lparr>nodes := spectrum_times (- \<i> * 2 * complex_of_real pi) (4, 2, 2)
                         (\<lambda>ix iy iz. spec_wavenumber 4 1 ix) E8\<rparr>) R0) 0 0 0
   \<and> at3 (ffti_spec (T8\<lparr>nodes := spectrum_times (- \<i> * 2 * complex_of_real pi) (4, 2, 2)
                         (\<lambda>ix iy iz. spec_wavenumber 4 1 ix) E8\<rparr>) R0) 0 0 0
       = - pi / 2"
proof -
  have v: "at3 (ffti_spec (T8\<lparr>nodes := spectrum_times (- \<i> * 2 * complex_of_real pi) (4, 2, 2)
                         (\<lambda>ix iy iz. spec_wavenumber 4 1 ix) E8\<rparr>) R0) 0 0 0
      = - pi / 2"
    unfolding spectrum_sum_8 by simp
  have sp: "spacing E8 = Vec3d (kspace_spacing 4 1) (kspace_spacing 2 1) (kspace_spacing 2 1)"
    by (simp add: E8_def kspace_spacing_def)
  have "x3 (at3 (force_from_energy_kspace ffti_spec (4, 2, 2) E8 T8 R0 F8) 0 0 0)
       = at3 (ffti_spec (T8\<lparr>nodes := spectrum_times (- \<i> * 2 * complex_of_real pi) (4, 2, 2)
                         (\<lambda>ix iy iz. spec_wavenumber 4 1 ix) E8\<rparr>) R0) 0 0 0"
    using force_components_spectral [OF shaped_8 _ _ _ _ _ _ sp refl refl refl refl,
        of 0 0 0 ffti_spec R0]
    by simp
  then show ?thesis
    using v sp shaped_8 by simp
qed

section \<open>The clamp of the harmonic angle kernel\<close>

lemma nonfinite_inf_of_sign: "nonfinite (inf_of_sign s) "
  by (simp add: inf_of_sign_def)

lemma nonfinite_dneg: "nonfinite x \<Longrightarrow> nonfinite (dneg x)"
  by (cases x) simp_all

lemma nonfinite_dadd: "nonfinite x \<or> nonfinite y \<Longrightarrow> nonfinite (dadd rnd x y)"
  by (cases x; cases y) simp_all

lemma nonfinite_dsub: "nonfinite x \<or> nonfinite y \<Longrightarrow> nonfinite (dsub rnd x y)"
  by (cases x; cases y) (simp_all add: dsub_def)

lemma nonfinite_dmul: "nonfinite x \<or> nonfinite y \<Longrightarrow> nonfinite (dmul rnd x y)"
  by (cases x; cases y) (simp_all add: nonfinite_inf_of_sign)

lemma nonfinite_ddiv_num: "nonfinite x \<Longrightarrow> nonfinite (ddiv rnd x y)"
  by (cases x; cases y) simp_all

lemma nonfinite_ddiv_zero: "nonfinite (ddiv rnd x (Fin 0))"
  by (cases x) (simp_all add: nonfinite_inf_of_sign)

lemma nonfinite3_dsmul: "nonfinite c \<Longrightarrow> nonfinite3 (dsmul rnd c v)"
  by (simp add: nonfinite3_def dsmul_def nonfinite_dmul)

lemma nonfinite3_dvadd: "nonfinite3 a \<or> nonfinite3 b \<Longrightarrow> nonfinite3 (dvadd rnd a b)"
  by (auto simp add: nonfinite3_def dvadd_def nonfinite_dadd)

lemma nonfinite3_dvsub: "nonfinite3 a \<or> nonfinite3 b \<Longrightarrow> nonfinite3 (dvsub rnd a b)"
  by (auto simp add: nonfinite3_def dvsub_def nonfinite_dsub)

text \<open>The kernel in terms of the cosine ratio it computes.\<close>

lemma HarmonicAngle_eval_cos_t:
  "HarmonicAngle_eval rnd atom_i1 atom_i2 shared_i k theta0 positions (forces, energies) =
     (let r1_vec = dvsub rnd (positions ! atom_i1) (positions ! shared_i);
          r2_vec = dvsub rnd (positions ! atom_i2) (positions ! shared_i);
          r1 = dlen rnd r1_vec;
          r2 = dlen rnd r2_vec;
          cos_t = clamp_cos (HarmonicAngle_cos_t rnd atom_i1 atom_i2 shared_i positions);
          theta = dacos rnd cos_t;
          sin_t = dsin rnd theta;
          d_theta = dsub rnd theta theta0;
          f_multiplier = ddiv rnd (dmul rnd (dmul rnd (Fin (- 2)) k) d_theta) sin_t;
          f1 = dsmul rnd (ddiv rnd (dneg f_multiplier) r1)
                 (dvsub rnd (dvdiv rnd r2_vec r2) (dvdiv rnd (dvmul rnd r1_vec cos_t) r1));
          f2 = dsmul rnd (ddiv rnd (dneg f_multiplier) r2)
                 (dvsub rnd (dvdiv rnd r1_vec r1) (dvdiv rnd (dvmul rnd r2_vec cos_t) r2));
          e = dmul rnd k (dmul rnd d_theta d_theta);
          forces = forces[atom_i1 := dvadd rnd (forces ! atom_i1) f1];
          forces = forces[atom_i2 := dvadd rnd (forces ! atom_i2) f2];
          forces = forces[shared_i := dvsub rnd (forces ! shared_i) (dvadd rnd f1 f2)];
          energies = energies[atom_i1 := dadd rnd (energies ! atom_i1) e];
          energies = energies[atom_i2 := dadd rnd (energies ! atom_i2) e];
          energies = energies[shared_i := dadd rnd (energies ! shared_i) e]
      in (forces, energies))"
  by (simp add: HarmonicAngle_eval_def HarmonicAngle_cos_t_def Let_def)

text \<open>
  Claim C5. For every rounding (that leaves zero as it is) and every position array for
  which the cosine ratio that the harmonic angle kernel computes comes out above 1, the
  kernel raises no domain error: it clamps the cosine to exactly 1, which is in the
  domain of the inverse cosine, the angle is \<open>\<theta> = 0\<close>, and the energy that \<open>eval\<close> adds to
  each of its three (distinct, in range) participants is \<open>k (0 - \<theta>\<^sub>0)\<^sup>2\<close>.
\<close>

theorem angle_cosine_clamped:
  assumes "rnd 0 = Fin 0"
    and "cos_t = HarmonicAngle_cos_t rnd atom_i1 atom_i2 shared_i positions"
    and "dgt cos_t (Fin 1)"
    and "atom_i1 < length energies" and "atom_i2 < length energies" and "shared_i < length energies"
    and "atom_i1 \<noteq> atom_i2" and "atom_i1 \<noteq> shared_i" and "atom_i2 \<noteq> shared_i"
    and "acc' = HarmonicAngle_eval rnd atom_i1 atom_i2 shared_i k theta0 positions (forces, energies)"
    and "e = dmul rnd k (dmul rnd (dsub rnd (Fin 0) theta0) (dsub rnd (Fin 0) theta0))"
  shows "clamp_cos cos_t = Fin 1
       \<and> \<not> acos_domain_error (clamp_cos cos_t)
       \<and> dacos rnd (clamp_cos cos_t) = Fin 0
       \<and> snd acc' ! atom_i1 = dadd rnd (energies ! atom_i1) e
       \<and> snd acc' ! atom_i2 = dadd rnd (energies ! atom_i2) e
       \<and> snd acc' ! shared_i = dadd rnd (energies ! shared_i) e"
proof -
  have c: "clamp_cos (HarmonicAngle_cos_t rnd atom_i1 atom_i2 shared_i positions) = Fin 1"
    using assms(2,3) by (simp add: clamp_cos_def)
  have t: "dacos rnd (Fin 1) = Fin 0"
    by (simp add: assms(1))
  show ?thesis
    using assms(4-9)
    unfolding assms(10) HarmonicAngle_eval_cos_t Let_def assms(2) c t assms(11)
    by simp
qed

text \<open>
  The rounding of binary64 within one binade, and on the numbers of the example.
\<close>

lemma rne_bounds: "of_int (rne y) \<le> y + 1 / 2" "y - 1 / 2 \<le> of_int (rne y)"
  unfolding rne_def Let_def by (auto; linarith)+

lemma binary64_binade:
  assumes "2 powr of_int e \<le> \<bar>x\<bar>" and "\<bar>x\<bar> < 2 powr (of_int e + 1)"
    and "- 1022 \<le> e" and "e \<le> 1022"
  shows "binary64 x = Fin (of_int (rne (x / 2 powr (of_int e - 52))) * 2 powr (of_int e - 52))"
proof -
  have "0 < 2 powr real_of_int e" by simp
  then have x: "x \<noteq> 0" using assms(1) by auto
  have "\<lfloor>log 2 \<bar>x\<bar>\<rfloor> = e"
    using assms(1,2) x
    by (intro floor_unique) (simp_all add: le_log_iff log_less_iff flip: powr_add)
  then have e: "max \<lfloor>log 2 \<bar>x\<bar>\<rfloor> (- 1022) = e" using assms(3) by simp
  define u :: real where "u = 2 powr (of_int e - 52)"
  have u: "0 < u" by (simp add: u_def)
  have xu: "\<bar>x / u\<bar> < 2 powr 53"
  proof -
    have "\<bar>x / u\<bar> = \<bar>x\<bar> / u" using u by simp
    also have "\<dots> < 2 powr (of_int e + 1) / u"
      using assms(2) u by (simp add: divide_strict_right_mono)
    also have "\<dots> = 2 powr 53" by (simp add: u_def flip: powr_diff)
    finally show ?thesis .
  qed
  have "\<bar>of_int (rne (x / u))\<bar> \<le> \<bar>x / u\<bar> + 1 / 2"
    using rne_bounds [of "x / u"] by linarith
  then have "\<bar>of_int (rne (x / u)) :: real\<bar> < 2 powr 53 + 1" using xu by linarith
  also have "\<dots> \<le> 2 powr 54" by simp
  finally have "\<bar>of_int (rne (x / u)) * u\<bar> < 2 powr 54 * u" using u by (simp add: abs_mult)
  also have "\<dots> = 2 powr (54 + (of_int e - 52))" unfolding u_def by (simp only: powr_add)
  also have "\<dots> = 2 powr (of_int e + 2)"
    by (rule arg_cong [where f = "\<lambda>t. 2 powr t"]) simp
  also have "\<dots> \<le> 2 powr 1024" using assms(4) by (intro powr_mono) simp_all
  also have "\<dots> = 2 ^ 1024" by simp
  finally have "\<bar>of_int (rne (x / u)) * u\<bar> < 2 ^ 1024" .
  then show ?thesis
    using x unfolding binary64_def e Let_def u_def [symmetric] by simp
qed

lemma rne_unique: "of_int n - 1 / 2 < y \<Longrightarrow> y < of_int n + 1 / 2 \<Longrightarrow> rne y = n"
  unfolding rne_def Let_def by (auto; linarith)

lemma rne_of_int: "rne (of_int n) = n"
  by (rule rne_unique) simp_all

lemma binary64_half_1:
  assumes "1 / 2 \<le> \<bar>x\<bar>" and "\<bar>x\<bar> < 1"
  shows "binary64 x = Fin (of_int (rne (x * 2 ^ 53)) / 2 ^ 53)"
  using binary64_binade [of "- 1" x] assms by (simp add: powr_minus field_simps)

lemma binary64_1_2:
  assumes "1 \<le> \<bar>x\<bar>" and "\<bar>x\<bar> < 2"
  shows "binary64 x = Fin (of_int (rne (x * 2 ^ 52)) / 2 ^ 52)"
  using binary64_binade [of 0 x] assms by (simp add: powr_minus field_simps)

lemma binary64_2_4:
  assumes "2 \<le> \<bar>x\<bar>" and "\<bar>x\<bar> < 4"
  shows "binary64 x = Fin (of_int (rne (x * 2 ^ 51)) / 2 ^ 51)"
  using binary64_binade [of 1 x] assms by (simp add: powr_minus field_simps)

lemma binary64_0: "binary64 0 = Fin 0"
  by (simp add: binary64_def)

lemma binary64_1: "binary64 1 = Fin 1"
  using binary64_1_2 [of 1] rne_of_int [of 4503599627370496] by simp

lemma binary64_m1: "binary64 (- 1) = Fin (- 1)"
  using binary64_1_2 [of "- 1"] rne_of_int [of "- 4503599627370496"] by simp

lemma binary64_2: "binary64 2 = Fin 2"
  using binary64_2_4 [of 2] rne_of_int [of 4503599627370496] by simp

lemma binary64_m2: "binary64 (- 2) = Fin (- 2)"
  using binary64_2_4 [of "- 2"] rne_of_int [of "- 4503599627370496"] by simp

lemma binary64_3: "binary64 3 = Fin 3"
  using binary64_2_4 [of 3] rne_of_int [of 6755399441055744] by simp

lemma sqrt3_bounds: "15600926743107923 / 2 ^ 53 < sqrt 3" "sqrt 3 < 15600926743107925 / 2 ^ 53"
proof -
  have "(15600926743107923 / 2 ^ 53)\<^sup>2 < (3::real)" by (simp add: power2_eq_square)
  then show "15600926743107923 / 2 ^ 53 < sqrt 3" by (intro real_less_rsqrt)
  have "(3::real) < (15600926743107925 / 2 ^ 53)\<^sup>2" by (simp add: power2_eq_square)
  then show "sqrt 3 < 15600926743107925 / 2 ^ 53" by (intro real_less_lsqrt) simp_all
qed

lemma binary64_sqrt3: "binary64 (sqrt 3) = Fin (7800463371553962 / 2 ^ 52)"
proof -
  have "rne (sqrt 3 * 2 ^ 52) = 7800463371553962"
    using sqrt3_bounds by (intro rne_unique) (simp_all add: field_simps)
  moreover have "1 \<le> \<bar>sqrt 3\<bar>" "\<bar>sqrt 3\<bar> < 2"
    using sqrt3_bounds by simp_all
  ultimately show ?thesis
    using binary64_1_2 [of "sqrt 3"] by simp
qed

lemma binary64_len_sqr: "binary64 (7800463371553962 / 2 ^ 52 * (7800463371553962 / 2 ^ 52))
    = Fin (6755399441055743 / 2 ^ 51)"
proof -
  define a :: real where "a = 7800463371553962 / 2 ^ 52 * (7800463371553962 / 2 ^ 52)"
  have "rne (a * 2 ^ 51) = 6755399441055743"
    by (rule rne_unique) (simp_all add: a_def)
  moreover have "2 \<le> \<bar>a\<bar>" "\<bar>a\<bar> < 4"
    by (simp_all add: a_def)
  ultimately show ?thesis
    using binary64_2_4 [of a] by (simp add: a_def)
qed

lemma binary64_ratio: "binary64 (3 / (6755399441055743 / 2 ^ 51)) = Fin (4503599627370497 / 2 ^ 52)"
proof -
  define a :: real where "a = 3 / (6755399441055743 / 2 ^ 51)"
  have "rne (a * 2 ^ 52) = 4503599627370497"
    by (rule rne_unique) (simp_all add: a_def)
  moreover have "1 \<le> \<bar>a\<bar>" "\<bar>a\<bar> < 2"
    by (simp_all add: a_def)
  ultimately show ?thesis
    using binary64_1_2 [of a] by (simp add: a_def)
qed

lemma binary64_unit: "binary64 (1 / (7800463371553962 / 2 ^ 52)) = Fin (5200308914369309 / 2 ^ 53)"
proof -
  define a :: real where "a = 1 / (7800463371553962 / 2 ^ 52)"
  have "rne (a * 2 ^ 53) = 5200308914369309"
    by (rule rne_unique) (simp_all add: a_def)
  moreover have "1 / 2 \<le> \<bar>a\<bar>" "\<bar>a\<bar> < 1"
    by (simp_all add: a_def)
  ultimately show ?thesis
    using binary64_half_1 [of a] by (simp add: a_def)
qed

text \<open>
  In binary64, two particles at \<open>(1, 1, 1)\<close> seen from the origin: both lengths are the
  double nearest to \<open>\<surd>3\<close>, their product rounds to \<open>3 - 2\<^sup>-\<^sup>5\<^sup>1\<close>, and the cosine ratio
  \<open>3 / (3 - 2\<^sup>-\<^sup>5\<^sup>1)\<close> rounds to \<open>1 + 2\<^sup>-\<^sup>5\<^sup>2\<close>, the double next above 1
  (1.0000000000000002). With \<open>k = 1\<close> and \<open>\<theta>\<^sub>0 = 1\<close> the kernel adds the energy
  \<open>(0 - 1)\<^sup>2 = 1\<close> to each participant, and NaN to every component of their forces.
\<close>

lemma dlen_111: "dlen binary64 (dVec3d (Fin 1) (Fin 1) (Fin 1)) = Fin (7800463371553962 / 2 ^ 52)"
proof -
  have "ddot binary64 (dVec3d (Fin 1) (Fin 1) (Fin 1)) (dVec3d (Fin 1) (Fin 1) (Fin 1)) = Fin 3"
    by (simp add: ddot_def binary64_1 binary64_2 binary64_3)
  then show ?thesis
    unfolding dlen_def by (simp only: dsqrt.simps binary64_sqrt3) simp
qed

lemma r_vec_P111:
  "dvsub binary64 (P111 ! 0) (P111 ! 2) = dVec3d (Fin 1) (Fin 1) (Fin 1)"
  "dvsub binary64 (P111 ! 1) (P111 ! 2) = dVec3d (Fin 1) (Fin 1) (Fin 1)"
  by (simp_all add: P111_def dvsub_def dsub_def binary64_1)

lemma cos_t_P111: "HarmonicAngle_cos_t binary64 0 1 2 P111 = Fin (4503599627370497 / 2 ^ 52)"
proof -
  have d: "ddot binary64 (dVec3d (Fin 1) (Fin 1) (Fin 1)) (dVec3d (Fin 1) (Fin 1) (Fin 1)) = Fin 3"
    by (simp add: ddot_def binary64_1 binary64_2 binary64_3)
  have p: "(6755399441055743 / 2 ^ 51 = (0::real)) = False"
    by simp
  show ?thesis
    unfolding HarmonicAngle_cos_t_def Let_def r_vec_P111 dlen_111 d
    by (simp only: dmul.simps ddiv.simps binary64_len_sqr binary64_ratio p if_False)
qed

lemma eval_P111:
  "HarmonicAngle_eval binary64 0 1 2 (Fin 1) (Fin 1) P111 Z3
     = ([dVec3d NaN NaN NaN, dVec3d NaN NaN NaN, dVec3d NaN NaN NaN], [Fin 1, Fin 1, Fin 1])"
proof -
  define s :: real where "s = 7800463371553962 / 2 ^ 52"
  define c :: real where "c = 5200308914369309 / 2 ^ 53"
  have s: "0 < s" "s \<noteq> 0" by (simp_all add: s_def)
  have u: "binary64 (1 / s) = Fin c"
    unfolding s_def c_def by (rule binary64_unit)
  have cl: "clamp_cos (Fin (4503599627370497 / 2 ^ 52)) = Fin 1"
    by (simp add: clamp_cos_def)
  have l: "dlen binary64 (dVec3d (Fin 1) (Fin 1) (Fin 1)) = Fin s"
    unfolding s_def by (rule dlen_111)
  show ?thesis
    unfolding Z3_def HarmonicAngle_eval_cos_t cos_t_P111 cl Let_def r_vec_P111 l
    using s
    by (simp add: dsub_def dvadd_def dsmul_def dvmul_def dvdiv_def dvsub_def
        inf_of_sign_def binary64_0 binary64_1 binary64_m1 binary64_2 binary64_m2 u)
qed

theorem angle_cosine_clamped_witness:
  "binary64 0 = Fin 0
   \<and> HarmonicAngle_cos_t binary64 0 1 2 P111 = Fin (4503599627370497 / 2 ^ 52)
   \<and> dgt (Fin (4503599627370497 / 2 ^ 52)) (Fin 1)
   \<and> (0::nat) < length (snd Z3) \<and> (1::nat) < length (snd Z3) \<and> (2::nat) < length (snd Z3)
   \<and> clamp_cos (Fin (4503599627370497 / 2 ^ 52)) = Fin 1
   \<and> \<not> acos_domain_error (clamp_cos (Fin (4503599627370497 / 2 ^ 52)))
   \<and> dacos binary64 (clamp_cos (Fin (4503599627370497 / 2 ^ 52))) = Fin 0
   \<and> snd (HarmonicAngle_eval binary64 0 1 2 (Fin 1) (Fin 1) P111 Z3) ! 0 = Fin 1
   \<and> snd (HarmonicAngle_eval binary64 0 1 2 (Fin 1) (Fin 1) P111 Z3) ! 1 = Fin 1
   \<and> snd (HarmonicAngle_eval binary64 0 1 2 (Fin 1) (Fin 1) P111 Z3) ! 2 = Fin 1
   \<and> HarmonicAngle_eval binary64 0 1 2 (Fin 1) (Fin 1) P111 Z3
       = ([dVec3d NaN NaN NaN, dVec3d NaN NaN NaN, dVec3d NaN NaN NaN], [Fin 1, Fin 1, Fin 1])"
proof -
  have e: "dmul binary64 (Fin 1)
      (dmul binary64 (dsub binary64 (Fin 0) (Fin 1)) (dsub binary64 (Fin 0) (Fin 1))) = Fin 1"
    by (simp add: dsub_def binary64_m1 binary64_1)
  have "clamp_cos (Fin (4503599627370497 / 2 ^ 52)) = Fin 1
       \<and> \<not> acos_domain_error (clamp_cos (Fin (4503599627370497 / 2 ^ 52)))
       \<and> dacos binary64 (clamp_cos (Fin (4503599627370497 / 2 ^ 52))) = Fin 0
       \<and> snd (HarmonicAngle_eval binary64 0 1 2 (Fin 1) (Fin 1) P111 Z3) ! 0 = Fin 1
       \<and> snd (HarmonicAngle_eval binary64 0 1 2 (Fin 1) (Fin 1) P111 Z3) ! 1 = Fin 1
       \<and> snd (HarmonicAngle_eval binary64 0 1 2 (Fin 1) (Fin 1) P111 Z3) ! 2 = Fin 1"
    unfolding Z3_def
    using angle_cosine_clamped [where rnd = binary64, OF binary64_0 cos_t_P111 [symmetric],
        where energies = "[Fin 0, Fin 0, Fin 0]"
        and forces = "[dVec3d (Fin 0) (Fin 0) (Fin 0), dVec3d (Fin 0) (Fin 0) (Fin 0),
          dVec3d (Fin 0) (Fin 0) (Fin 0)]"
        and k = "Fin 1" and ?theta0.0 = "Fin 1", OF _ _ _ _ _ _ _ refl refl]
    by (simp add: e binary64_0 binary64_1)
  then show ?thesis
    using cos_t_P111 eval_P111 by (simp add: binary64_0 Z3_def)
qed

text \<open>
  What the kernel writes into the forces in that case: the angle is 0, so is its sine,
  and the division by it leaves no finite component in the force of any of the three
  participants.
\<close>

lemma angle_clamped_forces_nonfinite:
  assumes "rnd 0 = Fin 0"
    and "dgt (HarmonicAngle_cos_t rnd atom_i1 atom_i2 shared_i positions) (Fin 1)"
    and "atom_i1 < length forces" and "atom_i2 < length forces" and "shared_i < length forces"
    and "atom_i1 \<noteq> atom_i2" and "atom_i1 \<noteq> shared_i" and "atom_i2 \<noteq> shared_i"
    and "acc' = HarmonicAngle_eval rnd atom_i1 atom_i2 shared_i k theta0 positions (forces, energies)"
  shows "nonfinite3 (fst acc' ! atom_i1) \<and> nonfinite3 (fst acc' ! atom_i2)
       \<and> nonfinite3 (fst acc' ! shared_i)"
proof -
  have c: "clamp_cos (HarmonicAngle_cos_t rnd atom_i1 atom_i2 shared_i positions) = Fin 1"
    using assms(2) by (simp add: clamp_cos_def)
  have t: "dacos rnd (Fin 1) = Fin 0" "dsin rnd (Fin 0) = Fin 0"
    by (simp_all add: assms(1))
  show ?thesis
    using assms(3-8)
    unfolding assms(9) HarmonicAngle_eval_cos_t Let_def c t
    by (simp add: nonfinite3_dvadd nonfinite3_dvsub nonfinite3_dsmul nonfinite_ddiv_num
        nonfinite_dneg nonfinite_ddiv_zero)
qed

section \<open>No guard in the harmonic angle kernel\<close>

text \<open>NaN as an operand, and the products and sums of an exact zero.\<close>

lemma dadd_NaN_right: "dadd rnd x NaN = NaN"
  by (cases x) simp_all

lemma dsub_NaN_left: "dsub rnd NaN y = NaN"
  by (simp add: dsub_def)

lemma dmul_NaN_right: "dmul rnd x NaN = NaN"
  by (cases x) simp_all

lemma ddiv_NaN_right: "ddiv rnd x NaN = NaN"
  by (cases x) simp_all

lemma dsmul_NaN: "dsmul rnd NaN v = dVec3d NaN NaN NaN"
  by (simp add: dsmul_def)

lemma dvadd_NaN_right: "dvadd rnd v (dVec3d NaN NaN NaN) = dVec3d NaN NaN NaN"
  by (simp add: dvadd_def dadd_NaN_right)

lemma dvadd_NaN_left: "dvadd rnd (dVec3d NaN NaN NaN) v = dVec3d NaN NaN NaN"
  by (simp add: dvadd_def)

lemma dvsub_NaN_right: "dvsub rnd v (dVec3d NaN NaN NaN) = dVec3d NaN NaN NaN"
  by (simp add: dvsub_def dsub_def dadd_NaN_right)

lemma zero_or_NaN_simps [simp]: "zero_or_NaN (Fin 0)" "zero_or_NaN NaN"
  by (simp_all add: zero_or_NaN_def)

lemma zero_or_NaN_dmul_left: "rnd 0 = Fin 0 \<Longrightarrow> zero_or_NaN x \<Longrightarrow> zero_or_NaN (dmul rnd x y)"
  by (cases y) (auto simp add: zero_or_NaN_def inf_of_sign_def)

lemma zero_or_NaN_dadd:
  "rnd 0 = Fin 0 \<Longrightarrow> zero_or_NaN x \<Longrightarrow> zero_or_NaN y \<Longrightarrow> zero_or_NaN (dadd rnd x y)"
  by (auto simp add: zero_or_NaN_def)

lemma ddiv_zero_or_NaN: "zero_or_NaN x \<Longrightarrow> zero_or_NaN y \<Longrightarrow> ddiv rnd x y = NaN"
  by (auto simp add: zero_or_NaN_def inf_of_sign_def)

lemma zero_or_NaN_ddot_left:
  assumes "rnd 0 = Fin 0" and "a = dVec3d (Fin 0) (Fin 0) (Fin 0)"
  shows "zero_or_NaN (ddot rnd a b)"
  unfolding ddot_def using assms
  by (intro zero_or_NaN_dadd zero_or_NaN_dmul_left) simp_all

lemma dvsub_self:
  assumes "rnd 0 = Fin 0" and "p = dVec3d (Fin x) (Fin y) (Fin z)"
  shows "dvsub rnd p p = dVec3d (Fin 0) (Fin 0) (Fin 0)"
  using assms by (simp add: dvsub_def dsub_def)

lemma dlen_zero: "rnd 0 = Fin 0 \<Longrightarrow> dlen rnd (dVec3d (Fin 0) (Fin 0) (Fin 0)) = Fin 0"
  by (simp add: dlen_def ddot_def)

text \<open>
  The harmonic angle kernel does not refer to \<^verbatim>\<open>TOLERANCE\<close>. When its first participant
  lies on the shared one (at finite coordinates), the length \<open>r1\<close> is zero and the cosine
  ratio is zero by zero, which is NaN.
\<close>

lemma angle_coincident_cos_t:
  assumes "rnd 0 = Fin 0" and "positions ! atom_i1 = dVec3d (Fin x) (Fin y) (Fin z)"
    and "positions ! shared_i = positions ! atom_i1"
  shows "HarmonicAngle_cos_t rnd atom_i1 atom_i2 shared_i positions = NaN"
proof -
  have r1: "dvsub rnd (positions ! atom_i1) (positions ! shared_i) = dVec3d (Fin 0) (Fin 0) (Fin 0)"
    using assms dvsub_self by simp
  show ?thesis
    unfolding HarmonicAngle_cos_t_def Let_def r1 dlen_zero [where rnd = rnd, OF assms(1)]
    by (intro ddiv_zero_or_NaN zero_or_NaN_ddot_left [where rnd = rnd, OF assms(1)]
        zero_or_NaN_dmul_left [where rnd = rnd, OF assms(1)]) simp_all
qed

text \<open>
  The clamp leaves NaN as it is (both comparisons are false), and NaN runs through every
  later operation: the kernel writes NaN into every component of the force of each of
  its participants, and into their energies.
\<close>

lemma angle_coincident:
  assumes "rnd 0 = Fin 0" and "positions ! atom_i1 = dVec3d (Fin x) (Fin y) (Fin z)"
    and "positions ! shared_i = positions ! atom_i1"
    and "atom_i1 < length forces" and "atom_i2 < length forces" and "shared_i < length forces"
    and "i \<in> {atom_i1, atom_i2, shared_i}"
  shows "fst (HarmonicAngle_eval rnd atom_i1 atom_i2 shared_i k theta0 positions (forces, energies)) ! i
     = dVec3d NaN NaN NaN"
  using assms(4-7)
  unfolding HarmonicAngle_eval_cos_t Let_def angle_coincident_cos_t [where rnd = rnd, OF assms(1-3)]
  by (auto simp add: clamp_cos_def dlt_def dsub_NaN_left dmul_NaN_right ddiv_NaN_right dsmul_NaN
      dvadd_NaN_right dvadd_NaN_left dvsub_NaN_right nth_list_update)

lemma angle_coincident_energies:
  assumes "rnd 0 = Fin 0" and "positions ! atom_i1 = dVec3d (Fin x) (Fin y) (Fin z)"
    and "positions ! shared_i = positions ! atom_i1"
    and "atom_i1 < length energies" and "atom_i2 < length energies" and "shared_i < length energies"
    and "i \<in> {atom_i1, atom_i2, shared_i}"
  shows "snd (HarmonicAngle_eval rnd atom_i1 atom_i2 shared_i k theta0 positions (forces, energies)) ! i
     = NaN"
  using assms(4-7)
  unfolding HarmonicAngle_eval_cos_t Let_def angle_coincident_cos_t [where rnd = rnd, OF assms(1-3)]
  by (auto simp add: clamp_cos_def dlt_def dsub_NaN_left dmul_NaN_right dadd_NaN_right
      nth_list_update)

end
